theory Spec2Isabelle
  imports Complex_Main "HOL-Library.Word" "HOL-Library.Sublist"
begin

section \<open>Python string primitives used by the zip processor\<close>

text \<open>
  Python strings are modelled as \<^typ>\<open>string\<close>, each \<^typ>\<open>char\<close> standing for one code
  point below 256. The functions below model the \<^verbatim>\<open>str\<close> methods that
  \<^verbatim>\<open>function_app.py\<close> calls, always with a one-character separator.
\<close>

definition backslash :: char where
  "backslash = CHR 0x5C"

text \<open>\<^verbatim>\<open>s.replace(c, new)\<close> for a one-character \<^verbatim>\<open>c\<close>.\<close>

definition str_replace :: "char \<Rightarrow> string \<Rightarrow> string \<Rightarrow> string" where
  "str_replace c new s = concat (map (\<lambda>x. if x = c then new else [x]) s)"

text \<open>\<^verbatim>\<open>s.lstrip(c)\<close> and \<^verbatim>\<open>s.strip(c)\<close> for a one-character \<^verbatim>\<open>c\<close>.\<close>

definition str_lstrip :: "char \<Rightarrow> string \<Rightarrow> string" where
  "str_lstrip c s = dropWhile (\<lambda>x. x = c) s"

definition str_strip :: "char \<Rightarrow> string \<Rightarrow> string" where
  "str_strip c s = rev (dropWhile (\<lambda>x. x = c) (rev (dropWhile (\<lambda>x. x = c) s)))"

text \<open>\<^verbatim>\<open>s.endswith(c)\<close>.\<close>

definition str_endswith :: "char \<Rightarrow> string \<Rightarrow> bool" where
  "str_endswith c s = (case rev s of [] \<Rightarrow> False | x # _ \<Rightarrow> x = c)"

text \<open>
  \<^verbatim>\<open>s.split(c)\<close>: every occurrence of the separator cuts; empty pieces are kept, and the
  result is never the empty list (\<^verbatim>\<open>"".split("/") == [""]\<close>).
\<close>

fun str_split :: "char \<Rightarrow> string \<Rightarrow> string list" where
  "str_split c [] = [] # []"
| "str_split c (x # xs) =
     (if x = c then [] # str_split c xs
      else (case str_split c xs of
              [] \<Rightarrow> [x] # []
            | p # ps \<Rightarrow> (x # p) # ps))"

text \<open>\<^verbatim>\<open>c.join(segs)\<close>.\<close>

fun str_join :: "char \<Rightarrow> string list \<Rightarrow> string" where
  "str_join c [] = []"
| "str_join c [s] = s"
| "str_join c (s # t # ss) = s @ c # str_join c (t # ss)"

text \<open>\<^verbatim>\<open>s.rsplit(c, 1)[0]\<close>: the text before the last separator, or all of it.\<close>

definition str_rsplit1_head :: "char \<Rightarrow> string \<Rightarrow> string" where
  "str_rsplit1_head c s =
     (if c \<in> set s then rev (tl (dropWhile (\<lambda>x. x \<noteq> c) (rev s))) else s)"

text \<open>
  \<^verbatim>\<open>s.lower()\<close> on code points below 256: the ASCII capitals and the Latin-1 capitals
  (0xC0 to 0xDE, the multiplication sign 0xD7 apart) move up by 32.
\<close>

definition lower_char :: "char \<Rightarrow> char" where
  "lower_char c =
     (let n = (of_char c :: nat)
      in if (65 \<le> n \<and> n \<le> 90) \<or> (192 \<le> n \<and> n \<le> 222 \<and> n \<noteq> 215)
         then char_of (n + 32) else c)"

definition str_lower :: "string \<Rightarrow> string" where
  "str_lower s = map lower_char s"

text \<open>
  \<^verbatim>\<open>os.path.splitext(p)[1]\<close> (the POSIX flavour): the extension starts at the last dot
  of the last path component, provided some character of that component before the dot
  is not itself a dot; otherwise it is empty.
\<close>

definition splitext_ext :: "string \<Rightarrow> string" where
  "splitext_ext p =
     (let base = rev (takeWhile (\<lambda>x. x \<noteq> CHR ''/'') (rev p))
      in if CHR ''.'' \<in> set base
         then (let stem = rev (tl (dropWhile (\<lambda>x. x \<noteq> CHR ''.'') (rev base)));
                   ext = CHR ''.'' # rev (takeWhile (\<lambda>x. x \<noteq> CHR ''.'') (rev base))
               in if list_ex (\<lambda>x. x \<noteq> CHR ''.'') stem then ext else [])
         else [])"

text \<open>\<^verbatim>\<open>str(n)\<close> for a natural number and for an integer, in decimal.\<close>

function str_nat :: "nat \<Rightarrow> string" where
  "str_nat n =
     (if n < 10 then [''0123456789'' ! n]
      else str_nat (n div 10) @ [''0123456789'' ! (n mod 10)])"
  by pat_completeness auto
termination
  by (relation "measure id") auto

declare str_nat.simps [simp del]

definition str_int :: "int \<Rightarrow> string" where
  "str_int i = (if i < 0 then CHR ''-'' # str_nat (nat (- i)) else str_nat (nat i))"

section \<open>Flattening of archive members\<close>

text \<open>
  The selection of \<^verbatim>\<open>process_zip_job\<close>:
  \<^verbatim>\<open>
  zip_basename = filename.rsplit(".", 1)[0] if "." in filename else "archive"
  members = [m for m in zf.namelist() if not m.endswith("/")]
  to_process = [
      (name, rel_path, flattened)
      for name in members
      for rel_path in [name.replace("\\", "/").lstrip("/")]
      for ext in [os.path.splitext(rel_path)[1].lower()]
      if ext in supported_extensions
      for flattened in [f"{zip_basename}__{rel_path.replace('/', '__')}"]
  ]
  \<close>
\<close>

definition rel_path_of :: "string \<Rightarrow> string" where
  "rel_path_of name = str_lstrip CHR ''/'' (str_replace backslash ''/'' name)"

definition flattened_key :: "string \<Rightarrow> string \<Rightarrow> string" where
  "flattened_key zip_basename rel_path =
     zip_basename @ ''__'' @ str_replace CHR ''/'' ''__'' rel_path"

definition members_of :: "string list \<Rightarrow> string list" where
  "members_of namelist = filter (\<lambda>m. \<not> str_endswith CHR ''/'' m) namelist"

definition eligible :: "string set \<Rightarrow> string \<Rightarrow> bool" where
  "eligible supported_extensions rel_path =
     (str_lower (splitext_ext rel_path) \<in> supported_extensions)"

definition to_process_of ::
  "string \<Rightarrow> string set \<Rightarrow> string list \<Rightarrow> (string \<times> string \<times> string) list" where
  "to_process_of zip_basename supported_extensions members =
     map (\<lambda>name. (name, rel_path_of name, flattened_key zip_basename (rel_path_of name)))
       (filter (\<lambda>name. eligible supported_extensions (rel_path_of name)) members)"

text \<open>
  A relative path is unambiguous for the flattening when none of its underscores is
  directly followed by another underscore or by a slash.
\<close>

fun underscore_safe :: "string \<Rightarrow> bool" where
  "underscore_safe [] = True"
| "underscore_safe [c] = True"
| "underscore_safe (c # d # cs) =
     ((c \<noteq> CHR ''_'' \<or> (d \<noteq> CHR ''_'' \<and> d \<noteq> CHR ''/'')) \<and> underscore_safe (d # cs))"

section \<open>The trigger handler's session id\<close>

text \<open>
  \<^verbatim>\<open>
  parts = blob.name.replace("\\", "/").strip("/").split("/")
  upload_id = parts[-2] if len(parts) >= 2 else (parts[0] if parts else "unknown")
  \<close>
\<close>

definition normalized_path :: "string \<Rightarrow> string" where
  "normalized_path blob_name = str_strip CHR ''/'' (str_replace backslash ''/'' blob_name)"

definition path_parts :: "string \<Rightarrow> string list" where
  "path_parts blob_name = str_split CHR ''/'' (normalized_path blob_name)"

definition derive_upload_id :: "string \<Rightarrow> string" where
  "derive_upload_id blob_name =
     (let parts = path_parts blob_name
      in if length parts \<ge> 2 then parts ! (length parts - 2)
         else (if parts \<noteq> [] then parts ! 0 else ''unknown''))"

section \<open>Python values, exceptions and the collaborators of the zip processor\<close>

text \<open>
  The values a decoded JSON document can hold. Floats only matter through their truth
  value, so a float is a rational, an infinity or a NaN. A dict is the list of its items,
  each key once.
\<close>

datatype pyfloat = Finite rat | Infinite | NaN

datatype pyval =
    PNone
  | PBool bool
  | PInt int
  | PFloat pyfloat
  | PStr string
  | PList "pyval list"
  | PDict "(string \<times> pyval) list"

text \<open>Truth value of a Python object, as \<^verbatim>\<open>not x\<close> tests it.\<close>

fun truthy :: "pyval \<Rightarrow> bool" where
  "truthy PNone = False"
| "truthy (PBool b) = b"
| "truthy (PInt i) = (i \<noteq> 0)"
| "truthy (PFloat f) = (f \<noteq> Finite 0)"
| "truthy (PStr s) = (s \<noteq> [])"
| "truthy (PList xs) = (xs \<noteq> [])"
| "truthy (PDict kvs) = (kvs \<noteq> [])"

text \<open>
  A raised exception: whether it is an instance of \<^verbatim>\<open>Exception\<close> (what
  \<^verbatim>\<open>except Exception\<close> catches; \<^verbatim>\<open>KeyboardInterrupt\<close> or a cancellation is not), the
  name of its class and its message.
\<close>

datatype exn = Exn (is_Exception: bool) (exn_type: string) (exn_msg: string)

definition ValueError :: "string \<Rightarrow> exn" where
  "ValueError msg = Exn True ''ValueError'' msg"

definition TypeError :: "string \<Rightarrow> exn" where
  "TypeError msg = Exn True ''TypeError'' msg"

definition AttributeError :: "string \<Rightarrow> exn" where
  "AttributeError msg = Exn True ''AttributeError'' msg"

definition quoted :: "string \<Rightarrow> string" where
  "quoted s = CHR 0x27 # s @ [CHR 0x27]"

text \<open>The name CPython prints for the class of a value.\<close>

fun py_type_name :: "pyval \<Rightarrow> string" where
  "py_type_name PNone = ''NoneType''"
| "py_type_name (PBool b) = ''bool''"
| "py_type_name (PInt i) = ''int''"
| "py_type_name (PFloat f) = ''float''"
| "py_type_name (PStr s) = ''str''"
| "py_type_name (PList xs) = ''list''"
| "py_type_name (PDict kvs) = ''dict''"

text \<open>\<^verbatim>\<open>job.get(key)\<close>: only a dict has the method; a missing key gives \<^verbatim>\<open>None\<close>.\<close>

definition py_get :: "pyval \<Rightarrow> string \<Rightarrow> exn + pyval" where
  "py_get job key =
     (case job of
        PDict kvs \<Rightarrow> Inr (case map_of kvs key of None \<Rightarrow> PNone | Some v \<Rightarrow> v)
      | _ \<Rightarrow> Inl (AttributeError (quoted (py_type_name job) @ '' object has no attribute ''
                      @ quoted ''get'')))"

type_synonym bytes = "8 word list"

datatype level = INFO | ERROR | EXCEPTION

datatype logarg = ArgVal pyval | ArgExn exn

record snapshot =
  snap_upload_id :: string
  snap_status :: string
  snap_files_total :: nat
  snap_files_done :: nat
  snap_indexed_ids :: "string list"
  snap_user_oid :: pyval

text \<open>
  The \<^verbatim>\<open>File\<close> handed to the ingester; its content is the \<^verbatim>\<open>BytesIO\<close> named after the
  flattened key.
\<close>

record file_record =
  file_content :: bytes
  file_content_name :: string
  file_url :: string
  file_acls_oids :: "pyval list"
  file_source_path :: string

text \<open>
  Every call that leaves the function is recorded, in order, when it is made: the calls
  on the blob manager and the ingester, the reads of the archive and the log records
  (template and arguments, as \<^verbatim>\<open>logging\<close> receives them).
\<close>

datatype event =
    GetSessionChunks string
  | ZipRead string
  | UploadBlob bytes string pyval
  | AddFile file_record pyval
  | UploadSessionProgress snapshot
  | DeleteSession string bool
  | Log level string "logarg list"

text \<open>
  What \<^verbatim>\<open>get_settings()\<close> returns: the blob manager and the ingester. Their classes are
  not part of these sources, so each operation is a parameter; it may raise, and it may
  depend on and change the outside world \<^typ>\<open>'w\<close>.
\<close>

record 'w settings =
  get_session_chunks :: "string \<Rightarrow> 'w \<Rightarrow> (exn + bytes) \<times> 'w"
  upload_blob :: "bytes \<Rightarrow> string \<Rightarrow> pyval \<Rightarrow> 'w \<Rightarrow> (exn + string) \<times> 'w"
  upload_session_progress :: "snapshot \<Rightarrow> 'w \<Rightarrow> (exn + unit) \<times> 'w"
  delete_session :: "string \<Rightarrow> bool \<Rightarrow> 'w \<Rightarrow> (exn + unit) \<times> 'w"
  add_file :: "file_record \<Rightarrow> pyval \<Rightarrow> 'w \<Rightarrow> (exn + unit) \<times> 'w"
  file_processors_keys :: "string list"

text \<open>An opened archive: \<^verbatim>\<open>zf.namelist()\<close> and \<^verbatim>\<open>zf.read(name)\<close>.\<close>

record zip_file =
  namelist :: "string list"
  zip_read :: "string \<Rightarrow> exn + bytes"

text \<open>
  The library functions around the job: \<^verbatim>\<open>get_settings()\<close>, which may raise,
  \<^verbatim>\<open>zipfile.ZipFile(io.BytesIO(data), "r")\<close> and
  \<^verbatim>\<open>json.loads(body.decode("utf-8"))\<close>.
\<close>

record 'w host =
  get_settings :: "exn + 'w settings"
  zipfile_ZipFile :: "bytes \<Rightarrow> exn + zip_file"
  json_loads :: "bytes \<Rightarrow> exn + pyval"

definition MAX_ZIP_SIZE_BYTES :: nat where
  "MAX_ZIP_SIZE_BYTES = 50 * 1024 * 1024"

definition MAX_ZIP_FILE_COUNT :: nat where
  "MAX_ZIP_FILE_COUNT = 30000"

text \<open>
  \<^verbatim>\<open>filename.rsplit(".", 1)[0] if "." in filename else "archive"\<close>. The handler passes
  whatever truthy value the descriptor holds, so the test is the \<^verbatim>\<open>in\<close> of that value's
  class: a substring test on a string, membership in a list, key membership in a dict,
  a \<^verbatim>\<open>TypeError\<close> on anything else; and only a string has \<^verbatim>\<open>rsplit\<close>.
\<close>

definition zip_basename_of :: "pyval \<Rightarrow> exn + string" where
  "zip_basename_of filename =
     (case filename of
        PStr s \<Rightarrow>
          Inr (if CHR ''.'' \<in> set s then str_rsplit1_head CHR ''.'' s else ''archive'')
      | PList xs \<Rightarrow>
          if PStr ''.'' \<in> set xs
          then Inl (AttributeError (quoted ''list'' @ '' object has no attribute ''
                      @ quoted ''rsplit''))
          else Inr ''archive''
      | PDict kvs \<Rightarrow>
          if ''.'' \<in> fst ` set kvs
          then Inl (AttributeError (quoted ''dict'' @ '' object has no attribute ''
                      @ quoted ''rsplit''))
          else Inr ''archive''
      | _ \<Rightarrow>
          Inl (TypeError (''argument of type '' @ quoted (py_type_name filename)
                 @ '' is not iterable'')))"

section \<open>The job: \<^verbatim>\<open>process_zip_job\<close>\<close>

text \<open>
  The state of a running job: the outside world, the calls made so far and the two
  local variables the loop updates.
\<close>

record 'w job =
  world :: 'w
  trace :: "event list"
  indexed_ids :: "string list"
  files_done :: nat

text \<open>The statement of the \<^verbatim>\<open>try\<close> body an exception came from.\<close>

datatype stage = ChunkRead | BlobUpload | AddFileCall | ProgressWrite

datatype entry_result = Indexed | Raised stage exn

text \<open>
  The body of the \<^verbatim>\<open>try\<close> for one entry of \<^verbatim>\<open>to_process\<close>:
  \<^verbatim>\<open>
  raw = zf.read(name)
  content = io.BytesIO(raw)
  content.name = flattened
  file_url = await adls_manager.upload_blob(content, flattened, user_oid)
  content.seek(0)
  await ingester.add_file(
      File(content=content, url=file_url, acls={"oids": [user_oid]}, source_path=rel_path),
      user_oid=user_oid)
  indexed_ids.append(flattened)
  files_done += 1
  await adls_manager.upload_session_progress(upload_id=upload_id, status="processing",
      files_total=files_total, files_done=files_done, indexed_ids=indexed_ids,
      user_oid=user_oid)
  logger.info("Indexed %s (%d/%d)", rel_path, files_done, files_total)
  \<close>
\<close>

definition try_entry ::
  "'w settings \<Rightarrow> zip_file \<Rightarrow> string \<Rightarrow> pyval \<Rightarrow> nat \<Rightarrow> string \<times> string \<times> string \<Rightarrow>
   'w job \<Rightarrow> entry_result \<times> 'w job" where
  "try_entry s zf upload_id user_oid files_total entry j =
     (case entry of (name, rel_path, flattened) \<Rightarrow>
        let j1 = j\<lparr>trace := trace j @ [ZipRead name]\<rparr>
        in case zip_read zf name of
             Inl e \<Rightarrow> (Raised ChunkRead e, j1)
           | Inr raw \<Rightarrow>
               (case upload_blob s raw flattened user_oid (world j1) of
                  (r2, w2) \<Rightarrow>
                    let j2 = j1\<lparr>world := w2,
                               trace := trace j1 @ [UploadBlob raw flattened user_oid]\<rparr>
                    in case r2 of
                         Inl e \<Rightarrow> (Raised BlobUpload e, j2)
                       | Inr url \<Rightarrow>
                           let f = \<lparr>file_content = raw, file_content_name = flattened,
                                    file_url = url, file_acls_oids = [user_oid],
                                    file_source_path = rel_path\<rparr>
                           in case add_file s f user_oid (world j2) of
                                (r3, w3) \<Rightarrow>
                                  let j3 = j2\<lparr>world := w3,
                                             trace := trace j2 @ [AddFile f user_oid]\<rparr>
                                  in case r3 of
                                       Inl e \<Rightarrow> (Raised AddFileCall e, j3)
                                     | Inr _ \<Rightarrow>
                                         let j4 = j3\<lparr>indexed_ids := indexed_ids j3 @ [flattened],
                                                    files_done := files_done j3 + 1\<rparr>;
                                             snap = \<lparr>snap_upload_id = upload_id,
                                                     snap_status = ''processing'',
                                                     snap_files_total = files_total,
                                                     snap_files_done = files_done j4,
                                                     snap_indexed_ids = indexed_ids j4,
                                                     snap_user_oid = user_oid\<rparr>
                                         in case upload_session_progress s snap (world j4) of
                                              (r5, w5) \<Rightarrow>
                                                let j5 = j4\<lparr>world := w5,
                                                           trace := trace j4
                                                             @ [UploadSessionProgress snap]\<rparr>
                                                in case r5 of
                                                     Inl e \<Rightarrow> (Raised ProgressWrite e, j5)
                                                   | Inr _ \<Rightarrow>
                                                       (Indexed,
                                                        j5\<lparr>trace := trace j5
                                                          @ [Log INFO ''Indexed %s (%d/%d)''
                                                               [ArgVal (PStr rel_path),
                                                                ArgVal (PInt (int (files_done j5))),
                                                                ArgVal (PInt (int files_total))]]\<rparr>)))"

text \<open>
  The \<^verbatim>\<open>for\<close> loop with its handler:
  \<^verbatim>\<open>
  for name, rel_path, flattened in to_process:
      try: ...
      except Exception as e:
          logger.exception("Error processing %s from zip: %s", rel_path, e)
  \<close>
  An exception that is not an \<^verbatim>\<open>Exception\<close> leaves the loop.
\<close>

fun process_entries ::
  "'w settings \<Rightarrow> zip_file \<Rightarrow> string \<Rightarrow> pyval \<Rightarrow> nat \<Rightarrow> (string \<times> string \<times> string) list \<Rightarrow>
   'w job \<Rightarrow> exn option \<times> 'w job" where
  "process_entries s zf upload_id user_oid files_total [] j = (None, j)"
| "process_entries s zf upload_id user_oid files_total (entry # rest) j =
     (case try_entry s zf upload_id user_oid files_total entry j of
        (Indexed, j') \<Rightarrow> process_entries s zf upload_id user_oid files_total rest j'
      | (Raised st e, j') \<Rightarrow>
          if is_Exception e
          then process_entries s zf upload_id user_oid files_total rest
                 (j'\<lparr>trace := trace j'
                    @ [Log EXCEPTION ''Error processing %s from zip: %s''
                         [ArgVal (PStr (fst (snd entry))), ArgExn e]]\<rparr>)
          else (Some e, j'))"

text \<open>
  What happened at each entry the loop reached, in order: the result of its
  \<^verbatim>\<open>try\<close> body. The list stops after an exception that leaves the loop.
\<close>

fun entry_results ::
  "'w settings \<Rightarrow> zip_file \<Rightarrow> string \<Rightarrow> pyval \<Rightarrow> nat \<Rightarrow> (string \<times> string \<times> string) list \<Rightarrow>
   'w job \<Rightarrow> entry_result list" where
  "entry_results s zf upload_id user_oid files_total [] j = []"
| "entry_results s zf upload_id user_oid files_total (entry # rest) j =
     (case try_entry s zf upload_id user_oid files_total entry j of
        (Indexed, j') \<Rightarrow> Indexed # entry_results s zf upload_id user_oid files_total rest j'
      | (Raised st e, j') \<Rightarrow>
          if is_Exception e
          then Raised st e # entry_results s zf upload_id user_oid files_total rest
                 (j'\<lparr>trace := trace j'
                    @ [Log EXCEPTION ''Error processing %s from zip: %s''
                         [ArgVal (PStr (fst (snd entry))), ArgExn e]]\<rparr>)
          else [Raised st e])"

text \<open>
  The job up to and including its first snapshot (the statements before the loop):
  \<^verbatim>\<open>
  settings = get_settings()
  data = await adls_manager.get_session_chunks(upload_id)
  if not data:
      raise ValueError(f"No chunks found for session {upload_id}")
  if len(data) > MAX_ZIP_SIZE_BYTES:
      raise ValueError(f"Zip exceeds {MAX_ZIP_SIZE_BYTES // (1024*1024)} MB limit")
  zip_basename = ...
  supported_extensions = set(ingester.file_processors.keys())
  with zipfile.ZipFile(io.BytesIO(data), "r") as zf:
      members = [m for m in zf.namelist() if not m.endswith("/")]
      if len(members) > MAX_ZIP_FILE_COUNT:
          raise ValueError(f"Zip contains too many files (max {MAX_ZIP_FILE_COUNT})")
      to_process = ...
      files_total = len(to_process)
      indexed_ids = []
      files_done = 0
      await adls_manager.upload_session_progress(upload_id=upload_id, status="processing",
          files_total=files_total, files_done=0, indexed_ids=[], user_oid=user_oid)
  \<close>
  It either raises (the exception, the world and the calls made) or hands the loop its
  settings, archive, entries and initial state. An empty result of
  \<^verbatim>\<open>get_session_chunks\<close> stands for both \<^verbatim>\<open>None\<close> and \<^verbatim>\<open>b""\<close>.
\<close>

definition start_job ::
  "'w host \<Rightarrow> string \<Rightarrow> pyval \<Rightarrow> pyval \<Rightarrow> 'w \<Rightarrow>
   (exn \<times> 'w \<times> event list) +
   ('w settings \<times> zip_file \<times> (string \<times> string \<times> string) list \<times> 'w job)" where
  "start_job host upload_id filename user_oid w =
     (case get_settings host of
        Inl e \<Rightarrow> Inl (e, w, [])
      | Inr s \<Rightarrow>
          (case get_session_chunks s upload_id w of
             (r, w1) \<Rightarrow>
               let tr1 = [GetSessionChunks upload_id]
               in case r of
                    Inl e \<Rightarrow> Inl (e, w1, tr1)
                  | Inr data \<Rightarrow>
                      if data = []
                      then Inl (ValueError (''No chunks found for session '' @ upload_id), w1, tr1)
                      else if length data > MAX_ZIP_SIZE_BYTES
                      then Inl (ValueError (''Zip exceeds ''
                                  @ str_nat (MAX_ZIP_SIZE_BYTES div (1024 * 1024))
                                  @ '' MB limit''), w1, tr1)
                      else (case zip_basename_of filename of
                              Inl e \<Rightarrow> Inl (e, w1, tr1)
                            | Inr zip_basename \<Rightarrow>
                                let supported_extensions = set (file_processors_keys s)
                                in case zipfile_ZipFile host data of
                                     Inl e \<Rightarrow> Inl (e, w1, tr1)
                                   | Inr zf \<Rightarrow>
                                       let members = members_of (namelist zf)
                                       in if length members > MAX_ZIP_FILE_COUNT
                                          then Inl (ValueError (''Zip contains too many files (max ''
                                                      @ str_nat MAX_ZIP_FILE_COUNT @ '')''), w1, tr1)
                                          else
                                            let to_process =
                                                  to_process_of zip_basename supported_extensions members;
                                                files_total = length to_process;
                                                snap = \<lparr>snap_upload_id = upload_id,
                                                        snap_status = ''processing'',
                                                        snap_files_total = files_total,
                                                        snap_files_done = 0,
                                                        snap_indexed_ids = [],
                                                        snap_user_oid = user_oid\<rparr>
                                            in case upload_session_progress s snap w1 of
                                                 (r0, w2) \<Rightarrow>
                                                   let tr2 = tr1 @ [UploadSessionProgress snap]
                                                   in case r0 of
                                                        Inl e \<Rightarrow> Inl (e, w2, tr2)
                                                      | Inr _ \<Rightarrow>
                                                          Inr (s, zf, to_process,
                                                               \<lparr>world = w2, trace = tr2,
                                                                indexed_ids = [],
                                                                files_done = 0\<rparr>))))"

text \<open>
  The statements after the loop:
  \<^verbatim>\<open>
      await adls_manager.upload_session_progress(upload_id=upload_id, status="completed",
          files_total=files_total, files_done=files_done, indexed_ids=indexed_ids,
          user_oid=user_oid)
  await adls_manager.delete_session(upload_id, keep_progress=True)
  \<close>
\<close>

definition finish_job ::
  "'w settings \<Rightarrow> string \<Rightarrow> pyval \<Rightarrow> nat \<Rightarrow> 'w job \<Rightarrow> (exn + unit) \<times> 'w \<times> event list" where
  "finish_job s upload_id user_oid files_total j =
     (let snap = \<lparr>snap_upload_id = upload_id, snap_status = ''completed'',
                  snap_files_total = files_total, snap_files_done = files_done j,
                  snap_indexed_ids = indexed_ids j, snap_user_oid = user_oid\<rparr>
      in case upload_session_progress s snap (world j) of
           (r, w3) \<Rightarrow>
             let tr3 = trace j @ [UploadSessionProgress snap]
             in case r of
                  Inl e \<Rightarrow> (Inl e, w3, tr3)
                | Inr _ \<Rightarrow>
                    (case delete_session s upload_id True w3 of
                       (rd, w4) \<Rightarrow> (rd, w4, tr3 @ [DeleteSession upload_id True])))"

text \<open>
  \<^verbatim>\<open>process_zip_job(upload_id, filename, user_oid)\<close>, run from the world \<open>w\<close>: what it
  raises or returns, the world it leaves and the calls it made, in order.
\<close>

definition process_zip_job ::
  "'w host \<Rightarrow> string \<Rightarrow> pyval \<Rightarrow> pyval \<Rightarrow> 'w \<Rightarrow> (exn + unit) \<times> 'w \<times> event list" where
  "process_zip_job host upload_id filename user_oid w =
     (case start_job host upload_id filename user_oid w of
        Inl (e, w', tr) \<Rightarrow> (Inl e, w', tr)
      | Inr (s, zf, to_process, j0) \<Rightarrow>
          (case process_entries s zf upload_id user_oid (length to_process) to_process j0 of
             (Some e, j) \<Rightarrow> (Inl e, world j, trace j)
           | (None, j) \<Rightarrow> finish_job s upload_id user_oid (length to_process) j))"

text \<open>The snapshots passed to \<^verbatim>\<open>upload_session_progress\<close>, in call order.\<close>

fun progress_calls :: "event list \<Rightarrow> snapshot list" where
  "progress_calls [] = []"
| "progress_calls (UploadSessionProgress sn # evs) = sn # progress_calls evs"
| "progress_calls (_ # evs) = progress_calls evs"

text \<open>The calls that are work on one file: archive reads, blob uploads, indexing.\<close>

fun per_file_calls :: "event list \<Rightarrow> event list" where
  "per_file_calls [] = []"
| "per_file_calls (ZipRead n # evs) = ZipRead n # per_file_calls evs"
| "per_file_calls (UploadBlob b k u # evs) = UploadBlob b k u # per_file_calls evs"
| "per_file_calls (AddFile f u # evs) = AddFile f u # per_file_calls evs"
| "per_file_calls (_ # evs) = per_file_calls evs"

section \<open>The trigger handler: \<^verbatim>\<open>zip_processor\<close>\<close>

text \<open>The triggering blob: its name, and what \<^verbatim>\<open>blob.read()\<close> gives or raises.\<close>

record input_stream =
  blob_name :: string
  blob_read :: "exn + bytes"

text \<open>
  \<^verbatim>\<open>
  parts = ...; upload_id = ...
  try:
      job = json.loads(blob.read().decode("utf-8"))
  except Exception as e:
      logger.exception("Invalid _job.json for %s: %s", upload_id, e)
      return
  filename = job.get("filename")
  user_oid = job.get("user_oid")
  if not filename or not user_oid:
      logger.error("Missing filename or user_oid in _job.json for %s", upload_id)
      return
  logger.info("Processing zip job %s for user %s", upload_id, user_oid)
  try:
      asyncio.run(process_zip_job(upload_id, filename, user_oid))
      logger.info("Completed zip job %s", upload_id)
  except Exception as e:
      logger.exception("Failed zip job %s: %s", upload_id, e)
      raise
  \<close>
  \<^verbatim>\<open>asyncio.run\<close> is taken to run the coroutine to its end.
\<close>

definition zip_processor ::
  "'w host \<Rightarrow> input_stream \<Rightarrow> 'w \<Rightarrow> (exn + unit) \<times> 'w \<times> event list" where
  "zip_processor host blob w =
     (let upload_id = derive_upload_id (blob_name blob)
      in case (case blob_read blob of Inl e \<Rightarrow> Inl e | Inr body \<Rightarrow> json_loads host body) of
           Inl e \<Rightarrow>
             if is_Exception e
             then (Inr (), w,
                   [Log EXCEPTION ''Invalid _job.json for %s: %s''
                      [ArgVal (PStr upload_id), ArgExn e]])
             else (Inl e, w, [])
         | Inr job \<Rightarrow>
             (case py_get job ''filename'' of
                Inl e \<Rightarrow> (Inl e, w, [])
              | Inr filename \<Rightarrow>
                  (case py_get job ''user_oid'' of
                     Inl e \<Rightarrow> (Inl e, w, [])
                   | Inr user_oid \<Rightarrow>
                       if \<not> truthy filename \<or> \<not> truthy user_oid
                       then (Inr (), w,
                             [Log ERROR ''Missing filename or user_oid in _job.json for %s''
                                [ArgVal (PStr upload_id)]])
                       else
                         let tr0 = [Log INFO ''Processing zip job %s for user %s''
                                      [ArgVal (PStr upload_id), ArgVal user_oid]]
                         in case process_zip_job host upload_id filename user_oid w of
                              (Inr _, w', tr) \<Rightarrow>
                                (Inr (), w',
                                 tr0 @ tr @ [Log INFO ''Completed zip job %s''
                                               [ArgVal (PStr upload_id)]])
                            | (Inl e, w', tr) \<Rightarrow>
                                if is_Exception e
                                then (Inl e, w',
                                      tr0 @ tr @ [Log EXCEPTION ''Failed zip job %s: %s''
                                                    [ArgVal (PStr upload_id), ArgExn e]])
                                else (Inl e, w', tr0 @ tr))))"

section \<open>Error messages of the backend: \<^verbatim>\<open>error_dict\<close>\<close>

text \<open>
  The class of an exception object: \<^verbatim>\<open>type(error).__name__\<close> and the text that
  formatting \<^verbatim>\<open>type(error)\<close> gives, \<^verbatim>\<open><class 'module.Name'>\<close> (the module is left out
  for a builtin class).
\<close>

record pyclass =
  class_module :: string
  class_name :: string

definition class_repr :: "pyclass \<Rightarrow> string" where
  "class_repr c =
     ''<class ''
     @ quoted ((if class_module c = ''builtins'' then [] else class_module c @ ''.'')
               @ class_name c)
     @ ''>''"

text \<open>
  The exceptions \<^verbatim>\<open>error_dict\<close> tells apart: an \<^verbatim>\<open>openai.APIError\<close> with its
  \<^verbatim>\<open>code\<close>; an \<^verbatim>\<open>azure.core.exceptions.HttpResponseError\<close> with its \<^verbatim>\<open>message\<close>
  attribute, its \<^verbatim>\<open>str()\<close> and its \<^verbatim>\<open>response\<close> (absent, or present with or without a
  \<^verbatim>\<open>status_code\<close>); and any other exception.
\<close>

datatype py_error =
    APIError pyclass "string option"
  | HttpResponseError pyclass "string option" string "int option option"
  | OtherError pyclass

definition newline :: string where
  "newline = [CHR 0x0A]"

definition ERROR_MESSAGE :: "string \<Rightarrow> string" where
  "ERROR_MESSAGE error_type =
     ''The app encountered an error processing your request.'' @ newline
     @ ''If you are an administrator of the app, check the application logs for a full traceback.''
     @ newline @ ''Error type: '' @ error_type @ newline"

definition ERROR_MESSAGE_FILTER :: string where
  "ERROR_MESSAGE_FILTER =
     ''Your message contains content that was flagged by the OpenAI content filter.''"

definition ERROR_MESSAGE_LENGTH :: string where
  "ERROR_MESSAGE_LENGTH =
     ''Your message exceeded the context length limit for this OpenAI model. ''
     @ ''Please shorten your message or change your settings to retrieve fewer search results.''"

definition ERROR_MESSAGE_AZURE :: "string \<Rightarrow> string \<Rightarrow> string" where
  "ERROR_MESSAGE_AZURE message error_type =
     ''Azure service error: '' @ message @ newline
     @ ''If indexing is in progress, try again in a minute. Error type: '' @ error_type"

text \<open>
  \<^verbatim>\<open>
  def error_dict(error: Exception) -> dict:
      if isinstance(error, APIError) and error.code == "content_filter":
          return {"error": ERROR_MESSAGE_FILTER}
      if isinstance(error, APIError) and error.code == "context_length_exceeded":
          return {"error": ERROR_MESSAGE_LENGTH}
      if isinstance(error, HttpResponseError):
          msg = getattr(error, "message", None) or str(error)
          status = getattr(error.response, "status_code", None) if getattr(error, "response", None) else None
          if status:
              msg = f"[HTTP {status}] {msg}"
          return {"error": ERROR_MESSAGE_AZURE.format(message=msg, error_type=type(error).__name__)}
      return {"error": ERROR_MESSAGE.format(error_type=type(error))}
  \<close>
\<close>

text \<open>The line \<^verbatim>\<open>msg = getattr(error, "message", None) or str(error)\<close>.\<close>

definition error_text :: "string option \<Rightarrow> string \<Rightarrow> string" where
  "error_text message str_error =
     (case message of None \<Rightarrow> str_error | Some m \<Rightarrow> if m = [] then str_error else m)"

fun error_dict :: "py_error \<Rightarrow> (string \<rightharpoonup> string)" where
  "error_dict (APIError c code) =
     (if code = Some ''content_filter'' then [''error'' \<mapsto> ERROR_MESSAGE_FILTER]
      else if code = Some ''context_length_exceeded'' then [''error'' \<mapsto> ERROR_MESSAGE_LENGTH]
      else [''error'' \<mapsto> ERROR_MESSAGE (class_repr c)])"
| "error_dict (HttpResponseError c message str_error response) =
     (let msg = error_text message str_error;
          status = (case response of None \<Rightarrow> None | Some r \<Rightarrow> r);
          msg' = (case status of
                    None \<Rightarrow> msg
                  | Some n \<Rightarrow> if n \<noteq> 0 then ''[HTTP '' @ str_int n @ ''] '' @ msg else msg)
      in [''error'' \<mapsto> ERROR_MESSAGE_AZURE msg' (class_name c)])"
| "error_dict (OtherError c) = [''error'' \<mapsto> ERROR_MESSAGE (class_repr c)]"

text \<open>A status code an HTTP response can carry.\<close>

definition http_status :: "int \<Rightarrow> bool" where
  "http_status n = (100 \<le> n \<and> n \<le> 599)"

section \<open>The figure processor's describer cache\<close>

text \<open>
  Modelled from the spec: the class \<^verbatim>\<open>FigureProcessor\<close> of
  \<^verbatim>\<open>prepdocslib/figureprocessor.py\<close> is not among these sources (only its test is), so its
  strategies, configuration and state follow section 4.5 of the specification.
\<close>

datatype media_description_strategy =
  NONE | OPENAI | CONTENTUNDERSTANDING | UnknownStrategy string

text \<open>
  Modelled from the spec: the credential of the CONTENTUNDERSTANDING variant, a token
  credential or a key credential (which the variant refuses).
\<close>

datatype credential = TokenCredential | KeyCredential

text \<open>
  Modelled from the spec: the two kinds of describer the processor constructs, one for
  each variant that describes.
\<close>

datatype describer_kind = OpenAIDescriber | ContentUnderstandingDescriber

text \<open>
  Modelled from the spec: a describer instance, told from any other by its identity.
\<close>

record describer =
  describer_kind :: describer_kind
  describer_id :: nat

text \<open>
  Modelled from the spec: the processor of \<^verbatim>\<open>figureprocessor.py\<close>: its strategy, the
  configuration of each variant, the cached describer (none while uninitialized) and the
  readiness latch.
\<close>

record figure_processor =
  strategy :: media_description_strategy
  openai_client :: bool
  openai_model :: "string option"
  fp_credential :: "credential option"
  content_understanding_endpoint :: "string option"
  media_describer :: "describer option"
  content_understanding_ready :: bool

text \<open>
  Modelled from the spec: what the processor does to the outside, in order: constructing a
  describer, the remote create-analyzer step, describing an image, logging a warning.
\<close>

datatype fp_event =
    Construct describer
  | CreateAnalyzer nat
  | DescribeImage nat bytes
  | Warning string

text \<open>
  Modelled from the spec: a fresh identity for the next describer constructed, one more
  than the constructions so far.
\<close>

definition fresh_id :: "fp_event list \<Rightarrow> nat" where
  "fresh_id evs = length (filter (\<lambda>ev. case ev of Construct d \<Rightarrow> True | _ \<Rightarrow> False) evs)"

text \<open>
  Modelled from the spec: \<^verbatim>\<open>get_media_describer\<close> of \<^verbatim>\<open>figureprocessor.py\<close>, the state
  machine Uninitialized \<open>\<rightarrow>\<close> Cached of section 4.5. Once cached, the same instance is
  returned and nothing is constructed or provisioned. Otherwise the variant is validated
  (the messages of the table), the describer is constructed, provisioned for
  CONTENTUNDERSTANDING by the create-analyzer step, and cached. NONE never constructs; an
  unknown strategy logs a warning and gives no describer.
\<close>

definition get_media_describer ::
  "figure_processor \<Rightarrow> fp_event list \<Rightarrow> (exn + describer option) \<times> figure_processor \<times> fp_event list"
  where
  "get_media_describer fp evs =
     (case media_describer fp of
        Some d \<Rightarrow> (Inr (Some d), fp, evs)
      | None \<Rightarrow>
          (case strategy fp of
             NONE \<Rightarrow> (Inr None, fp, evs)
           | OPENAI \<Rightarrow>
               if \<not> openai_client fp \<or> openai_model fp = None
               then (Inl (ValueError ''requires both a client and a model name''), fp, evs)
               else
                 let d = \<lparr>describer_kind = OpenAIDescriber, describer_id = fresh_id evs\<rparr>
                 in (Inr (Some d), fp\<lparr>media_describer := Some d\<rparr>, evs @ [Construct d])
           | CONTENTUNDERSTANDING \<Rightarrow>
               if content_understanding_endpoint fp = None
               then (Inl (ValueError ''requires an endpoint''), fp, evs)
               else if fp_credential fp = None
               then (Inl (ValueError ''requires a credential''), fp, evs)
               else if fp_credential fp = Some KeyCredential
               then (Inl (ValueError ''does not support key credentials''), fp, evs)
               else
                 let d = \<lparr>describer_kind = ContentUnderstandingDescriber,
                          describer_id = fresh_id evs\<rparr>
                 in (Inr (Some d), fp\<lparr>media_describer := Some d\<rparr>,
                     evs @ [Construct d, CreateAnalyzer (describer_id d)])
           | UnknownStrategy v \<Rightarrow>
               (Inr None, fp, evs @ [Warning ''Unknown media description strategy''])))"

text \<open>
  Modelled from the spec: \<^verbatim>\<open>mark_content_understanding_ready\<close>, the one-way latch that
  neither gates nor resets the cache.
\<close>

definition mark_content_understanding_ready :: "figure_processor \<Rightarrow> figure_processor" where
  "mark_content_understanding_ready fp = fp\<lparr>content_understanding_ready := True\<rparr>"

text \<open>
  Modelled from the spec: \<^verbatim>\<open>describe(bytes)\<close> acquires the describer and delegates to its
  image-description operation (the parameter \<open>describe_image\<close>), returning what it
  returns; with no describer there is no description.
\<close>

definition describe ::
  "(describer \<Rightarrow> bytes \<Rightarrow> string option) \<Rightarrow> bytes \<Rightarrow> figure_processor \<Rightarrow> fp_event list \<Rightarrow>
   (exn + string option) \<times> figure_processor \<times> fp_event list" where
  "describe describe_image img fp evs =
     (case get_media_describer fp evs of
        (Inl e, fp', evs') \<Rightarrow> (Inl e, fp', evs')
      | (Inr None, fp', evs') \<Rightarrow> (Inr None, fp', evs')
      | (Inr (Some d), fp', evs') \<Rightarrow>
          (Inr (describe_image d img), fp', evs' @ [DescribeImage (describer_id d) img]))"

text \<open>Modelled from the spec: the number of create-analyzer steps among the calls made.\<close>

definition create_analyzer_count :: "fp_event list \<Rightarrow> nat" where
  "create_analyzer_count evs =
     length (filter (\<lambda>ev. case ev of CreateAnalyzer i \<Rightarrow> True | _ \<Rightarrow> False) evs)"

text \<open>
  Modelled from the spec: a correctly configured CONTENTUNDERSTANDING processor has an
  endpoint and a token credential.
\<close>

definition correctly_configured :: "figure_processor \<Rightarrow> bool" where
  "correctly_configured fp =
     (strategy fp = CONTENTUNDERSTANDING \<and> content_understanding_endpoint fp \<noteq> None
      \<and> fp_credential fp = Some TokenCredential)"

section \<open>Invariants of a run and sample collaborators\<close>

text \<open>
  The snapshots written so far, seen from the loop: each carries the job's total, as many
  ids as files done, and ids that are a prefix of the current ones; each is a prefix of
  the later ones; the first is the empty one.
\<close>

definition snapshots_ok :: "nat \<Rightarrow> string list \<Rightarrow> snapshot list \<Rightarrow> bool" where
  "snapshots_ok N ids sns =
     ((\<forall>sn\<in>set sns. snap_files_total sn = N
          \<and> length (snap_indexed_ids sn) = snap_files_done sn
          \<and> prefix (snap_indexed_ids sn) ids)
      \<and> sorted_wrt (\<lambda>a b. prefix (snap_indexed_ids a) (snap_indexed_ids b)) sns
      \<and> sns \<noteq> [] \<and> snap_files_done (hd sns) = 0 \<and> snap_indexed_ids (hd sns) = [])"

definition job_inv :: "nat \<Rightarrow> 'w job \<Rightarrow> bool" where
  "job_inv N j =
     (length (indexed_ids j) = files_done j
      \<and> snapshots_ok N (indexed_ids j) (progress_calls (trace j)))"

text \<open>
  An entry the loop gets past without touching its counters: it was indexed, or its
  \<^verbatim>\<open>try\<close> body raised an \<^verbatim>\<open>Exception\<close> before the counters were updated.
\<close>

fun survives :: "entry_result \<Rightarrow> bool" where
  "survives Indexed = True"
| "survives (Raised st e) = (st \<noteq> ProgressWrite \<and> is_Exception e)"

text \<open>The flattened keys of the entries whose result is \<^const>\<open>Indexed\<close>, in order.\<close>

definition indexed_keys ::
  "(string \<times> string \<times> string) list \<Rightarrow> entry_result list \<Rightarrow> string list" where
  "indexed_keys es rs = map (\<lambda>p. snd (snd (fst p))) (filter (\<lambda>p. snd p = Indexed) (zip es rs))"

text \<open>
  Sample collaborators over a trivial world: the chunk store returns \<open>data\<close>, every
  operation succeeds except \<^verbatim>\<open>add_file\<close> on the source path \<open>failing\<close>; the archive
  lists \<open>names\<close>; the job body decodes to \<open>job\<close>.
\<close>

definition sample_settings :: "bytes \<Rightarrow> string \<Rightarrow> unit settings" where
  "sample_settings data failing =
     \<lparr>get_session_chunks = (\<lambda>upload_id w. (Inr data, w)),
      upload_blob = (\<lambda>content key user_oid w. (Inr (''https://blobs/'' @ key), w)),
      upload_session_progress = (\<lambda>sn w. (Inr (), w)),
      delete_session = (\<lambda>upload_id keep_progress w. (Inr (), w)),
      add_file = (\<lambda>f user_oid w.
                    (if file_source_path f = failing
                     then Inl (Exn True ''RuntimeError'' ''indexing failed'')
                     else Inr (), w)),
      file_processors_keys = [''.ts'', ''.md'']\<rparr>"

definition sample_zip :: "string list \<Rightarrow> zip_file" where
  "sample_zip names = \<lparr>namelist = names, zip_read = (\<lambda>name. Inr [7])\<rparr>"

definition sample_host :: "bytes \<Rightarrow> string list \<Rightarrow> string \<Rightarrow> exn + pyval \<Rightarrow> unit host" where
  "sample_host data names failing job =
     \<lparr>get_settings = Inr (sample_settings data failing),
      zipfile_ZipFile = (\<lambda>d. Inr (sample_zip names)),
      json_loads = (\<lambda>body. job)\<rparr>"

text \<open>The triggering blob of the session \<^verbatim>\<open>s1\<close>; its body is whatever the sample host decodes it to.\<close>

definition sample_blob :: input_stream where
  "sample_blob = \<lparr>blob_name = ''user-content/_sessions/s1/_job.json'', blob_read = Inr [123, 125]\<rparr>"

text \<open>
  The processor of the test \<^verbatim>\<open>test_figure_processor_content_understanding_initializes_once\<close>:
  CONTENTUNDERSTANDING with an endpoint and a token credential, not yet used.
\<close>

definition sample_processor :: figure_processor where
  "sample_processor =
     \<lparr>strategy = CONTENTUNDERSTANDING, openai_client = False, openai_model = None,
      fp_credential = Some TokenCredential,
      content_understanding_endpoint = Some ''https://example.com'',
      media_describer = None, content_understanding_ready = False\<rparr>"

section \<open>Properties\<close>

subsection \<open>The progress snapshots of a run\<close>

lemma progress_calls_append:
  "progress_calls (xs @ ys) = progress_calls xs @ progress_calls ys"
  by (induction xs rule: progress_calls.induct) auto

lemma try_entry_Indexed:
  assumes "try_entry s zf upload_id user_oid N (name, rel_path, flattened) j = (Indexed, j')"
  shows "indexed_ids j' = indexed_ids j @ [flattened]"
    and "files_done j' = files_done j + 1"
    and "progress_calls (trace j') = progress_calls (trace j) @
           [\<lparr>snap_upload_id = upload_id, snap_status = ''processing'', snap_files_total = N,
             snap_files_done = files_done j + 1, snap_indexed_ids = indexed_ids j @ [flattened],
             snap_user_oid = user_oid\<rparr>]"
  using assms
  by (auto simp: try_entry_def Let_def progress_calls_append split: sum.splits prod.splits)

lemma try_entry_Raised_early:
  assumes "try_entry s zf upload_id user_oid N (name, rel_path, flattened) j = (Raised st e, j')"
    and "st \<noteq> ProgressWrite"
  shows "indexed_ids j' = indexed_ids j"
    and "files_done j' = files_done j"
    and "progress_calls (trace j') = progress_calls (trace j)"
  using assms
  by (auto simp: try_entry_def Let_def progress_calls_append split: sum.splits prod.splits)

lemma try_entry_Raised_progress:
  assumes "try_entry s zf upload_id user_oid N (name, rel_path, flattened) j = (Raised ProgressWrite e, j')"
  shows "indexed_ids j' = indexed_ids j @ [flattened]"
    and "files_done j' = files_done j + 1"
    and "progress_calls (trace j') = progress_calls (trace j) @
           [\<lparr>snap_upload_id = upload_id, snap_status = ''processing'', snap_files_total = N,
             snap_files_done = files_done j + 1, snap_indexed_ids = indexed_ids j @ [flattened],
             snap_user_oid = user_oid\<rparr>]"
  using assms
  by (auto simp: try_entry_def Let_def progress_calls_append split: sum.splits prod.splits)

lemma snapshots_ok_snoc:
  assumes "snapshots_ok N ids sns"
    and "snap_files_total sn = N"
    and "length (snap_indexed_ids sn) = snap_files_done sn"
    and "prefix ids (snap_indexed_ids sn)"
  shows "snapshots_ok N (snap_indexed_ids sn) (sns @ [sn])"
  using assms
  by (auto simp: snapshots_ok_def sorted_wrt_append intro: prefix_order.trans)

lemma snapshots_ok_single:
  "snap_files_total sn = N \<Longrightarrow> snap_files_done sn = 0 \<Longrightarrow> snap_indexed_ids sn = [] \<Longrightarrow>
   snapshots_ok N [] [sn]"
  by (simp add: snapshots_ok_def)

lemma try_entry_inv:
  assumes "job_inv N j"
    and "try_entry s zf upload_id user_oid N entry j = (r, j')"
  shows "job_inv N j'"
proof -
  obtain name rel_path flattened where entry: "entry = (name, rel_path, flattened)"
    by (cases entry) auto
  let ?sn = "\<lparr>snap_upload_id = upload_id, snap_status = ''processing'', snap_files_total = N,
             snap_files_done = files_done j + 1, snap_indexed_ids = indexed_ids j @ [flattened],
             snap_user_oid = user_oid\<rparr>"
  have grow: "snapshots_ok N (indexed_ids j @ [flattened]) (progress_calls (trace j) @ [?sn])"
    using snapshots_ok_snoc [of N "indexed_ids j" "progress_calls (trace j)" ?sn] assms(1)
    by (simp add: job_inv_def)
  show ?thesis
  proof (cases r)
    case Indexed
    with assms(2) entry try_entry_Indexed [of s zf upload_id user_oid N name rel_path flattened j j']
    show ?thesis using grow assms(1) by (simp add: job_inv_def)
  next
    case (Raised st e)
    show ?thesis
    proof (cases "st = ProgressWrite")
      case True
      with Raised assms(2) entry
        try_entry_Raised_progress [of s zf upload_id user_oid N name rel_path flattened j e j']
      show ?thesis using grow assms(1) by (simp add: job_inv_def)
    next
      case False
      with Raised assms(2) entry
        try_entry_Raised_early [of s zf upload_id user_oid N name rel_path flattened j st e j']
      show ?thesis using assms(1) by (simp add: job_inv_def)
    qed
  qed
qed

lemma job_inv_log:
  "job_inv N j \<Longrightarrow> job_inv N (j\<lparr>trace := trace j @ [Log lv t args]\<rparr>)"
  by (simp add: job_inv_def progress_calls_append)

lemma process_entries_inv:
  "job_inv N j \<Longrightarrow> process_entries s zf upload_id user_oid N es j = (r, j') \<Longrightarrow> job_inv N j'"
proof (induction es arbitrary: j)
  case Nil
  then show ?case by simp
next
  case (Cons entry rest)
  obtain r1 j1 where t: "try_entry s zf upload_id user_oid N entry j = (r1, j1)"
    by (cases "try_entry s zf upload_id user_oid N entry j") auto
  have inv1: "job_inv N j1" using try_entry_inv [OF Cons.prems(1) t] .
  show ?case
  proof (cases r1)
    case Indexed
    with Cons.prems(2) t have "process_entries s zf upload_id user_oid N rest j1 = (r, j')"
      by simp
    with Cons.IH inv1 show ?thesis by blast
  next
    case (Raised st e)
    show ?thesis
    proof (cases "is_Exception e")
      case True
      with Raised Cons.prems(2) t
      have "process_entries s zf upload_id user_oid N rest
              (j1\<lparr>trace := trace j1 @ [Log EXCEPTION ''Error processing %s from zip: %s''
                         [ArgVal (PStr (fst (snd entry))), ArgExn e]]\<rparr>) = (r, j')"
        by simp
      with Cons.IH job_inv_log [OF inv1] show ?thesis by blast
    next
      case False
      with Raised Cons.prems(2) t have "j' = j1" by simp
      with inv1 show ?thesis by simp
    qed
  qed
qed

lemma start_job_Inl:
  "start_job host upload_id filename user_oid w = Inl (e, w', tr) \<Longrightarrow>
   progress_calls tr = [] \<or> (\<exists>N. snapshots_ok N [] (progress_calls tr))"
  by (auto simp: start_job_def Let_def snapshots_ok_def
           split: sum.splits prod.splits if_splits)

lemma start_job_Inr:
  "start_job host upload_id filename user_oid w = Inr (s, zf, to_process, j0) \<Longrightarrow>
   job_inv (length to_process) j0"
  by (auto simp: start_job_def Let_def snapshots_ok_def job_inv_def
           split: sum.splits prod.splits if_splits)

lemma finish_job_inv:
  "job_inv N j \<Longrightarrow> finish_job s upload_id user_oid N j = (r, w', tr) \<Longrightarrow>
   snapshots_ok N (indexed_ids j) (progress_calls tr)"
proof -
  assume inv: "job_inv N j" and fin: "finish_job s upload_id user_oid N j = (r, w', tr)"
  let ?sn = "\<lparr>snap_upload_id = upload_id, snap_status = ''completed'',
                  snap_files_total = N, snap_files_done = files_done j,
                  snap_indexed_ids = indexed_ids j, snap_user_oid = user_oid\<rparr>"
  have "progress_calls tr = progress_calls (trace j) @ [?sn]"
    using fin
    by (auto simp: finish_job_def Let_def progress_calls_append split: sum.splits prod.splits)
  moreover have "snapshots_ok N (indexed_ids j) (progress_calls (trace j) @ [?sn])"
    using snapshots_ok_snoc [of N "indexed_ids j" "progress_calls (trace j)" ?sn] inv
    by (simp add: job_inv_def)
  ultimately show ?thesis by simp
qed

lemma process_zip_job_snapshots:
  assumes "process_zip_job host upload_id filename user_oid w = (r, w', tr)"
  shows "progress_calls tr = [] \<or> (\<exists>N ids. snapshots_ok N ids (progress_calls tr))"
proof (cases "start_job host upload_id filename user_oid w")
  case (Inl a)
  obtain e w1 tr1 where a: "a = (e, w1, tr1)" by (cases a) auto
  with Inl assms have "tr = tr1" by (simp add: process_zip_job_def)
  moreover have "progress_calls tr1 = [] \<or> (\<exists>N. snapshots_ok N [] (progress_calls tr1))"
    using start_job_Inl [of host upload_id filename user_oid w e w1 tr1] Inl a by simp
  ultimately show ?thesis by auto
next
  case (Inr b)
  obtain s zf tp j0 where b: "b = (s, zf, tp, j0)" by (cases b) auto
  have inv0: "job_inv (length tp) j0"
    using start_job_Inr [of host upload_id filename user_oid w s zf tp j0] Inr b by simp
  obtain ro j where loop: "process_entries s zf upload_id user_oid (length tp) tp j0 = (ro, j)"
    by (cases "process_entries s zf upload_id user_oid (length tp) tp j0") auto
  have inv: "job_inv (length tp) j" using process_entries_inv [OF inv0 loop] .
  show ?thesis
  proof (cases ro)
    case None
    with Inr b loop assms have "finish_job s upload_id user_oid (length tp) j = (r, w', tr)"
      by (simp add: process_zip_job_def)
    with finish_job_inv [OF inv] show ?thesis by blast
  next
    case (Some e)
    with Inr b loop assms have "tr = trace j" by (simp add: process_zip_job_def)
    with inv show ?thesis by (auto simp: job_inv_def)
  qed
qed

text \<open>
  Claim C2. Over the snapshots passed to \<^verbatim>\<open>upload_session_progress\<close> in one run of
  \<^verbatim>\<open>process_zip_job\<close>, in call order: the first has \<^verbatim>\<open>files_done = 0\<close> and no ids;
  \<^verbatim>\<open>files_done\<close> never decreases; the ids of an earlier snapshot are a prefix of the ids
  of every later one; each snapshot has as many ids as files done; and all carry the same
  \<^verbatim>\<open>files_total\<close>. This holds whatever the collaborators do, also when the run raises.
\<close>

theorem progress_snapshots_invariant:
  assumes "process_zip_job host upload_id filename user_oid w = (r, w', tr)"
  shows "(progress_calls tr \<noteq> [] \<longrightarrow>
            snap_files_done (hd (progress_calls tr)) = 0
            \<and> snap_indexed_ids (hd (progress_calls tr)) = [])
       \<and> sorted_wrt (\<lambda>a b. snap_files_done a \<le> snap_files_done b) (progress_calls tr)
       \<and> sorted_wrt (\<lambda>a b. prefix (snap_indexed_ids a) (snap_indexed_ids b)) (progress_calls tr)
       \<and> (\<forall>sn\<in>set (progress_calls tr). length (snap_indexed_ids sn) = snap_files_done sn)
       \<and> (\<forall>a\<in>set (progress_calls tr). \<forall>b\<in>set (progress_calls tr).
             snap_files_total a = snap_files_total b)"
proof (cases "progress_calls tr = []")
  case True
  then show ?thesis by simp
next
  case False
  with process_zip_job_snapshots [OF assms]
  obtain N ids where ok: "snapshots_ok N ids (progress_calls tr)" by blast
  have len: "\<forall>sn\<in>set (progress_calls tr). length (snap_indexed_ids sn) = snap_files_done sn"
    using ok by (simp add: snapshots_ok_def)
  have pre: "sorted_wrt (\<lambda>a b. prefix (snap_indexed_ids a) (snap_indexed_ids b)) (progress_calls tr)"
    using ok by (simp add: snapshots_ok_def)
  have "sorted_wrt (\<lambda>a b. snap_files_done a \<le> snap_files_done b) (progress_calls tr)"
    using pre
  proof (rule sorted_wrt_mono_rel [rotated])
    fix a b
    assume "a \<in> set (progress_calls tr)" "b \<in> set (progress_calls tr)"
      and "prefix (snap_indexed_ids a) (snap_indexed_ids b)"
    with len show "snap_files_done a \<le> snap_files_done b"
      by (metis prefix_length_le)
  qed
  with ok len pre show ?thesis by (simp add: snapshots_ok_def)
qed

subsection \<open>A run in which one file fails\<close>

lemma indexed_keys_Cons_Indexed [simp]:
  "indexed_keys (e # es) (Indexed # rs) = snd (snd e) # indexed_keys es rs"
  by (simp add: indexed_keys_def)

lemma indexed_keys_Cons_Raised [simp]:
  "indexed_keys (e # es) (Raised st x # rs) = indexed_keys es rs"
  by (simp add: indexed_keys_def)

lemma indexed_keys_Nil [simp]: "indexed_keys [] rs = []"
  by (simp add: indexed_keys_def)

lemma loop_survives:
  "list_all survives (entry_results s zf upload_id user_oid N es j) \<Longrightarrow>
   \<exists>j'. process_entries s zf upload_id user_oid N es j = (None, j')
      \<and> length (entry_results s zf upload_id user_oid N es j) = length es
      \<and> indexed_ids j' = indexed_ids j
            @ indexed_keys es (entry_results s zf upload_id user_oid N es j)
      \<and> files_done j' = files_done j
            + length (indexed_keys es (entry_results s zf upload_id user_oid N es j))"
proof (induction es arbitrary: j)
  case Nil
  then show ?case by simp
next
  case (Cons entry rest)
  obtain name rel_path flattened where entry: "entry = (name, rel_path, flattened)"
    by (cases entry) auto
  obtain r1 j1 where t: "try_entry s zf upload_id user_oid N entry j = (r1, j1)"
    by (cases "try_entry s zf upload_id user_oid N entry j") auto
  show ?case
  proof (cases r1)
    case Indexed
    have rs: "entry_results s zf upload_id user_oid N (entry # rest) j
              = Indexed # entry_results s zf upload_id user_oid N rest j1"
      using t Indexed by simp
    have pe: "process_entries s zf upload_id user_oid N (entry # rest) j
              = process_entries s zf upload_id user_oid N rest j1"
      using t Indexed by simp
    have "list_all survives (entry_results s zf upload_id user_oid N rest j1)"
      using Cons.prems rs by simp
    from Cons.IH [OF this] obtain j' where
      j': "process_entries s zf upload_id user_oid N rest j1 = (None, j')"
        "length (entry_results s zf upload_id user_oid N rest j1) = length rest"
        "indexed_ids j' = indexed_ids j1
            @ indexed_keys rest (entry_results s zf upload_id user_oid N rest j1)"
        "files_done j' = files_done j1
            + length (indexed_keys rest (entry_results s zf upload_id user_oid N rest j1))"
      by blast
    have j1: "indexed_ids j1 = indexed_ids j @ [flattened]" "files_done j1 = files_done j + 1"
      using try_entry_Indexed [of s zf upload_id user_oid N name rel_path flattened j j1]
        t Indexed entry by simp_all
    show ?thesis using j' j1 rs pe entry by simp
  next
    case (Raised st e)
    let ?j2 = "j1\<lparr>trace := trace j1 @ [Log EXCEPTION ''Error processing %s from zip: %s''
                         [ArgVal (PStr (fst (snd entry))), ArgExn e]]\<rparr>"
    have sv: "st \<noteq> ProgressWrite" "is_Exception e"
      using Cons.prems t Raised by (auto split: if_splits)
    have rs: "entry_results s zf upload_id user_oid N (entry # rest) j
              = Raised st e # entry_results s zf upload_id user_oid N rest ?j2"
      using t Raised sv by simp
    have pe: "process_entries s zf upload_id user_oid N (entry # rest) j
              = process_entries s zf upload_id user_oid N rest ?j2"
      using t Raised sv by simp
    have "list_all survives (entry_results s zf upload_id user_oid N rest ?j2)"
      using Cons.prems rs by simp
    from Cons.IH [OF this] obtain j' where
      j': "process_entries s zf upload_id user_oid N rest ?j2 = (None, j')"
        "length (entry_results s zf upload_id user_oid N rest ?j2) = length rest"
        "indexed_ids j' = indexed_ids ?j2
            @ indexed_keys rest (entry_results s zf upload_id user_oid N rest ?j2)"
        "files_done j' = files_done ?j2
            + length (indexed_keys rest (entry_results s zf upload_id user_oid N rest ?j2))"
      by blast
    have j1: "indexed_ids j1 = indexed_ids j" "files_done j1 = files_done j"
      using try_entry_Raised_early [of s zf upload_id user_oid N name rel_path flattened j st e j1]
        t Raised entry sv by simp_all
    show ?thesis using j' j1 rs pe by simp
  qed
qed

lemma indexed_keys_one_failure:
  "length es = i + Suc k \<Longrightarrow>
   indexed_keys es (replicate i Indexed @ Raised st e # replicate k Indexed)
   = map (\<lambda>x. snd (snd x)) (take i es @ drop (Suc i) es)"
proof (induction i arbitrary: es)
  case 0
  then obtain x xs where es: "es = x # xs" "length xs = k" by (cases es) auto
  have "indexed_keys xs (replicate (length xs) Indexed) = map (\<lambda>x. snd (snd x)) xs"
    by (induction xs) auto
  with es show ?case by simp
next
  case (Suc i)
  then obtain x xs where es: "es = x # xs" "length xs = i + Suc k" by (cases es) auto
  with Suc.IH [of xs] show ?case by simp
qed

lemma nth_take_drop_other:
  assumes "x \<in> set (take i xs @ drop (Suc i) xs)"
  shows "\<exists>m<length xs. m \<noteq> i \<and> x = xs ! m"
proof -
  from assms consider (t) "x \<in> set (take i xs)" | (d) "x \<in> set (drop (Suc i) xs)" by auto
  then show ?thesis
  proof cases
    case t
    then obtain m where "m < length (take i xs)" "x = take i xs ! m"
      by (auto simp: in_set_conv_nth)
    then have "m < length xs" "m \<noteq> i" "x = xs ! m" by auto
    then show ?thesis by blast
  next
    case d
    then obtain m where "m < length (drop (Suc i) xs)" "x = drop (Suc i) xs ! m"
      by (auto simp: in_set_conv_nth)
    then have "Suc i + m < length xs" "Suc i + m \<noteq> i" "x = xs ! (Suc i + m)" by auto
    then show ?thesis by blast
  qed
qed

lemma finish_job_last:
  "finish_job s upload_id user_oid N j = (r, w', tr) \<Longrightarrow>
   progress_calls tr \<noteq> [] \<and>
   last (progress_calls tr) =
     \<lparr>snap_upload_id = upload_id, snap_status = ''completed'',
      snap_files_total = N, snap_files_done = files_done j,
      snap_indexed_ids = indexed_ids j, snap_user_oid = user_oid\<rparr>"
  by (auto simp: finish_job_def Let_def progress_calls_append split: sum.splits prod.splits)

lemma start_job_initial:
  "start_job host upload_id filename user_oid w = Inr (s, zf, to_process, j0) \<Longrightarrow>
   indexed_ids j0 = [] \<and> files_done j0 = 0"
  by (auto simp: start_job_def Let_def split: sum.splits prod.splits if_splits)

lemma list_all_replicate_Indexed: "list_all survives (replicate n Indexed)"
  by (induction n) auto

text \<open>
  Claim C1, as amended. Let the job reach its loop with \<open>N\<close> entries to process, and let
  exactly one entry, the one at position \<open>i\<close>, raise an \<^verbatim>\<open>Exception\<close> from the archive
  read, the blob upload or \<^verbatim>\<open>add_file\<close>, every other entry being indexed. Then the loop
  raises nothing, and the snapshot written after it has \<^verbatim>\<open>status = "completed"\<close>,
  \<^verbatim>\<open>files_total = N\<close>, \<^verbatim>\<open>files_done = N - 1\<close> and as \<^verbatim>\<open>indexed_ids\<close> the \<open>N - 1\<close>
  flattened keys of the other entries, in order. The failed entry's key is absent from
  them provided no other entry to process has the same flattened key.
\<close>

theorem one_failure_completes:
  assumes "start_job host upload_id filename user_oid w = Inr (s, zf, to_process, j0)"
    and "entry_results s zf upload_id user_oid (length to_process) to_process j0
           = replicate i Indexed @ Raised st e # replicate k Indexed"
    and "st \<noteq> ProgressWrite"
    and "is_Exception e"
  shows "\<exists>j r w' tr.
           process_entries s zf upload_id user_oid (length to_process) to_process j0 = (None, j)
         \<and> process_zip_job host upload_id filename user_oid w = (r, w', tr)
         \<and> progress_calls tr \<noteq> []
         \<and> last (progress_calls tr) =
             \<lparr>snap_upload_id = upload_id, snap_status = ''completed'',
              snap_files_total = length to_process,
              snap_files_done = length to_process - 1,
              snap_indexed_ids =
                map (\<lambda>x. snd (snd x)) (take i to_process @ drop (Suc i) to_process),
              snap_user_oid = user_oid\<rparr>
         \<and> length (snap_indexed_ids (last (progress_calls tr))) = length to_process - 1
         \<and> i < length to_process
         \<and> ((\<forall>m<length to_process. m \<noteq> i \<longrightarrow>
                 snd (snd (to_process ! m)) \<noteq> snd (snd (to_process ! i)))
              \<longrightarrow> snd (snd (to_process ! i)) \<notin> set (snap_indexed_ids (last (progress_calls tr))))"
proof -
  let ?N = "length to_process"
  let ?rs = "entry_results s zf upload_id user_oid ?N to_process j0"
  have "list_all survives ?rs"
    using assms(2-4) by (simp add: list_all_replicate_Indexed)
  from loop_survives [OF this] obtain j where
    j: "process_entries s zf upload_id user_oid ?N to_process j0 = (None, j)"
       "length ?rs = ?N"
       "indexed_ids j = indexed_ids j0 @ indexed_keys to_process ?rs"
       "files_done j = files_done j0 + length (indexed_keys to_process ?rs)"
    by blast
  have N: "?N = i + Suc k" using j(2) assms(2) by simp
  have keys: "indexed_keys to_process ?rs
              = map (\<lambda>x. snd (snd x)) (take i to_process @ drop (Suc i) to_process)"
    using indexed_keys_one_failure [OF N] assms(2) by simp
  have init: "indexed_ids j0 = []" "files_done j0 = 0"
    using start_job_initial [OF assms(1)] by simp_all
  have ids: "indexed_ids j = map (\<lambda>x. snd (snd x)) (take i to_process @ drop (Suc i) to_process)"
    using j(3) keys init by simp
  have fd: "files_done j = ?N - 1"
    using j(4) keys init N by simp
  obtain r w' tr where fin: "finish_job s upload_id user_oid ?N j = (r, w', tr)"
    by (cases "finish_job s upload_id user_oid ?N j") auto
  have run: "process_zip_job host upload_id filename user_oid w = (r, w', tr)"
    using assms(1) j(1) fin by (simp add: process_zip_job_def)
  have lst: "progress_calls tr \<noteq> []"
    "last (progress_calls tr) =
       \<lparr>snap_upload_id = upload_id, snap_status = ''completed'',
        snap_files_total = ?N, snap_files_done = ?N - 1,
        snap_indexed_ids = map (\<lambda>x. snd (snd x)) (take i to_process @ drop (Suc i) to_process),
        snap_user_oid = user_oid\<rparr>"
    using finish_job_last [OF fin] ids fd by simp_all
  have len: "length (snap_indexed_ids (last (progress_calls tr))) = ?N - 1"
    using lst(2) N by simp
  have absent: "snd (snd (to_process ! i)) \<notin> set (snap_indexed_ids (last (progress_calls tr)))"
    if other: "\<forall>m<?N. m \<noteq> i \<longrightarrow> snd (snd (to_process ! m)) \<noteq> snd (snd (to_process ! i))"
  proof
    assume "snd (snd (to_process ! i)) \<in> set (snap_indexed_ids (last (progress_calls tr)))"
    then have "snd (snd (to_process ! i))
                 \<in> (\<lambda>x. snd (snd x)) ` set (take i to_process @ drop (Suc i) to_process)"
      using lst(2) by (simp del: map_append set_append)
    then obtain x where x: "snd (snd (to_process ! i)) = snd (snd x)"
      "x \<in> set (take i to_process @ drop (Suc i) to_process)"
      by (rule imageE)
    from nth_take_drop_other [OF x(2)] obtain m where
      "m < ?N" "m \<noteq> i" "x = to_process ! m" by blast
    with other x(1) show False by auto
  qed
  have ilt: "i < ?N" using N by simp
  from j(1) run lst(1) lst(2) len ilt absent show ?thesis by blast
qed

subsection \<open>The size and count limits\<close>

lemma size_limit_message: "str_nat (MAX_ZIP_SIZE_BYTES div 1048576) = ''50''"
  by (simp add: MAX_ZIP_SIZE_BYTES_def str_nat.simps)

lemma count_limit_message: "str_nat MAX_ZIP_FILE_COUNT = ''30000''"
  by (simp add: MAX_ZIP_FILE_COUNT_def str_nat.simps)

lemma start_job_oversize:
  assumes "get_settings host = Inr s"
    and "get_session_chunks s upload_id w = (Inr data, w1)"
    and "length data > MAX_ZIP_SIZE_BYTES"
  shows "start_job host upload_id filename user_oid w
         = Inl (ValueError ''Zip exceeds 50 MB limit'', w1, [GetSessionChunks upload_id])"
proof -
  have "data \<noteq> []" using assms(3) by auto
  then show ?thesis
    using assms by (simp add: start_job_def Let_def size_limit_message)
qed

lemma start_job_opened:
  assumes "get_settings host = Inr s"
    and "get_session_chunks s upload_id w = (Inr data, w1)"
    and "data \<noteq> []"
    and "length data \<le> MAX_ZIP_SIZE_BYTES"
    and "zip_basename_of filename = Inr zip_basename"
    and "zipfile_ZipFile host data = Inr zf"
  shows "start_job host upload_id filename user_oid w
         = (if length (members_of (namelist zf)) > MAX_ZIP_FILE_COUNT
            then Inl (ValueError ''Zip contains too many files (max 30000)'', w1,
                      [GetSessionChunks upload_id])
            else
              (let to_process = to_process_of zip_basename (set (file_processors_keys s))
                                  (members_of (namelist zf));
                   snap = \<lparr>snap_upload_id = upload_id, snap_status = ''processing'',
                           snap_files_total = length to_process, snap_files_done = 0,
                           snap_indexed_ids = [], snap_user_oid = user_oid\<rparr>
               in case upload_session_progress s snap w1 of
                    (r0, w2) \<Rightarrow>
                      (case r0 of
                         Inl e \<Rightarrow> Inl (e, w2, [GetSessionChunks upload_id, UploadSessionProgress snap])
                       | Inr _ \<Rightarrow>
                           Inr (s, zf, to_process,
                                \<lparr>world = w2,
                                 trace = [GetSessionChunks upload_id, UploadSessionProgress snap],
                                 indexed_ids = [], files_done = 0\<rparr>))))"
  using assms
  by (simp add: start_job_def Let_def count_limit_message split: prod.splits sum.splits)

lemma run_after_start:
  assumes "start_job host upload_id filename user_oid w = Inr (s, zf, to_process, j0)"
    and "process_zip_job host upload_id filename user_oid w = (r, w', tr)"
  shows "\<exists>ids. snapshots_ok (length to_process) ids (progress_calls tr)"
proof -
  have inv0: "job_inv (length to_process) j0"
    using start_job_Inr [OF assms(1)] .
  obtain ro j where loop:
    "process_entries s zf upload_id user_oid (length to_process) to_process j0 = (ro, j)"
    by (cases "process_entries s zf upload_id user_oid (length to_process) to_process j0") auto
  have inv: "job_inv (length to_process) j" using process_entries_inv [OF inv0 loop] .
  show ?thesis
  proof (cases ro)
    case None
    with assms loop have "finish_job s upload_id user_oid (length to_process) j = (r, w', tr)"
      by (simp add: process_zip_job_def)
    with finish_job_inv [OF inv] show ?thesis by blast
  next
    case (Some e)
    with assms loop have "tr = trace j" by (simp add: process_zip_job_def)
    with inv show ?thesis by (auto simp: job_inv_def)
  qed
qed

lemma first_snapshot_written:
  assumes "get_settings host = Inr s"
    and "get_session_chunks s upload_id w = (Inr data, w1)"
    and "data \<noteq> []"
    and "length data \<le> MAX_ZIP_SIZE_BYTES"
    and "zip_basename_of filename = Inr zip_basename"
    and "zipfile_ZipFile host data = Inr zf"
    and "length (members_of (namelist zf)) \<le> MAX_ZIP_FILE_COUNT"
    and "process_zip_job host upload_id filename user_oid w = (r, w', tr)"
  shows "progress_calls tr \<noteq> []
       \<and> snap_files_total (hd (progress_calls tr))
           = length (to_process_of zip_basename (set (file_processors_keys s))
                       (members_of (namelist zf)))
       \<and> snap_files_done (hd (progress_calls tr)) = 0"
proof -
  let ?tp = "to_process_of zip_basename (set (file_processors_keys s)) (members_of (namelist zf))"
  let ?snap = "\<lparr>snap_upload_id = upload_id, snap_status = ''processing'',
                 snap_files_total = length ?tp, snap_files_done = 0,
                 snap_indexed_ids = [], snap_user_oid = user_oid\<rparr>"
  note st = start_job_opened [OF assms(1-6), of user_oid]
  obtain r0 w2 where u: "upload_session_progress s ?snap w1 = (r0, w2)"
    by (cases "upload_session_progress s ?snap w1") auto
  show ?thesis
  proof (cases r0)
    case (Inl e)
    with st u assms(7) have "start_job host upload_id filename user_oid w
          = Inl (e, w2, [GetSessionChunks upload_id, UploadSessionProgress ?snap])"
      by (simp add: Let_def)
    with assms(8) have "tr = [GetSessionChunks upload_id, UploadSessionProgress ?snap]"
      by (simp add: process_zip_job_def)
    then show ?thesis by simp
  next
    case (Inr u0)
    with st u assms(7) have "start_job host upload_id filename user_oid w
          = Inr (s, zf, ?tp, \<lparr>world = w2,
                                 trace = [GetSessionChunks upload_id, UploadSessionProgress ?snap],
                                 indexed_ids = [], files_done = 0\<rparr>)"
      by (simp add: Let_def)
    from run_after_start [OF this assms(8)] show ?thesis
      by (auto simp: snapshots_ok_def)
  qed
qed

subsection \<open>Runs on sample archives\<close>

lemma sample_get_settings [simp]:
  "get_settings (sample_host data names failing job) = Inr (sample_settings data failing)"
  by (simp add: sample_host_def)

lemma sample_get_session_chunks [simp]:
  "get_session_chunks (sample_settings data failing) upload_id w = (Inr data, w)"
  by (simp add: sample_settings_def)

lemma sample_zipfile [simp]:
  "zipfile_ZipFile (sample_host data names failing job) d = Inr (sample_zip names)"
  by (simp add: sample_host_def)

lemma sample_namelist [simp]: "namelist (sample_zip names) = names"
  by (simp add: sample_zip_def)

lemma sample_keys [simp]:
  "file_processors_keys (sample_settings data failing) = [''.ts'', ''.md'']"
  by (simp add: sample_settings_def)

lemma sample_basename: "zip_basename_of (PStr ''proj.zip'') = Inr ''proj''"
  by (simp add: zip_basename_of_def str_rsplit1_head_def)

lemma not_dir_bin: "str_endswith CHR ''/'' ''a.bin'' = False"
  by (simp add: str_endswith_def)

lemma is_dir_docs: "str_endswith CHR ''/'' ''docs/'' = True"
  by (simp add: str_endswith_def)

lemma bin_not_eligible: "eligible {''.ts'', ''.md''} (rel_path_of ''a.bin'') = False"
  by code_simp

lemma members_bins: "members_of (replicate n ''a.bin'') = replicate n ''a.bin''"
  by (simp add: members_of_def filter_replicate not_dir_bin)

lemma members_docs: "members_of (replicate n ''docs/'') = []"
  by (simp add: members_of_def filter_replicate is_dir_docs)

lemma to_process_bins: "to_process_of b {''.ts'', ''.md''} (replicate n ''a.bin'') = []"
  by (simp add: to_process_of_def filter_replicate bin_not_eligible)

text \<open>
  Claim C4, as amended. Once the chunks are read, an archive of more than 50 MiB makes
  \<^verbatim>\<open>process_zip_job\<close> raise \<^verbatim>\<open>ValueError("Zip exceeds 50 MB limit")\<close>, and an archive
  within the size limit that opens with more than 30000 entries that are not directory
  entries makes it raise \<^verbatim>\<open>ValueError("Zip contains too many files (max 30000)")\<close>; in
  both cases no snapshot has been written and no per-file call made. An archive of at most
  50 MiB (so also of exactly 50 MiB) with at most 30000 such entries (so also exactly
  30000) is accepted: the first snapshot is written.
\<close>

theorem archive_limits_enforced:
  assumes "get_settings host = Inr s"
    and "get_session_chunks s upload_id w = (Inr data, w1)"
  shows "(length data > 50 * 1024 * 1024 \<longrightarrow>
            (\<exists>tr. process_zip_job host upload_id filename user_oid w
                    = (Inl (ValueError ''Zip exceeds 50 MB limit''), w1, tr)
                \<and> progress_calls tr = [] \<and> per_file_calls tr = []))
       \<and> (data \<noteq> [] \<and> length data \<le> 50 * 1024 * 1024
           \<and> zip_basename_of filename = Inr zip_basename
           \<and> zipfile_ZipFile host data = Inr zf \<longrightarrow>
            (length (members_of (namelist zf)) > 30000 \<longrightarrow>
               (\<exists>tr. process_zip_job host upload_id filename user_oid w
                       = (Inl (ValueError ''Zip contains too many files (max 30000)''), w1, tr)
                   \<and> progress_calls tr = [] \<and> per_file_calls tr = []))
          \<and> (length (members_of (namelist zf)) \<le> 30000 \<longrightarrow>
               progress_calls (snd (snd (process_zip_job host upload_id filename user_oid w)))
                 \<noteq> []))"
proof (intro conjI impI)
  assume "length data > 50 * 1024 * 1024"
  then have "length data > MAX_ZIP_SIZE_BYTES" by (simp add: MAX_ZIP_SIZE_BYTES_def)
  from start_job_oversize [OF assms this, of filename user_oid]
  show "\<exists>tr. process_zip_job host upload_id filename user_oid w
                = (Inl (ValueError ''Zip exceeds 50 MB limit''), w1, tr)
            \<and> progress_calls tr = [] \<and> per_file_calls tr = []"
    by (simp add: process_zip_job_def)
next
  assume pre: "data \<noteq> [] \<and> length data \<le> 50 * 1024 * 1024
           \<and> zip_basename_of filename = Inr zip_basename
           \<and> zipfile_ZipFile host data = Inr zf"
    and big: "length (members_of (namelist zf)) > 30000"
  from pre have sz: "length data \<le> MAX_ZIP_SIZE_BYTES" by (simp add: MAX_ZIP_SIZE_BYTES_def)
  from start_job_opened [OF assms _ sz, of filename zip_basename zf user_oid] pre big
  show "\<exists>tr. process_zip_job host upload_id filename user_oid w
                = (Inl (ValueError ''Zip contains too many files (max 30000)''), w1, tr)
            \<and> progress_calls tr = [] \<and> per_file_calls tr = []"
    by (simp add: process_zip_job_def MAX_ZIP_FILE_COUNT_def)
next
  assume pre: "data \<noteq> [] \<and> length data \<le> 50 * 1024 * 1024
           \<and> zip_basename_of filename = Inr zip_basename
           \<and> zipfile_ZipFile host data = Inr zf"
    and small: "length (members_of (namelist zf)) \<le> 30000"
  from pre have sz: "length data \<le> MAX_ZIP_SIZE_BYTES" by (simp add: MAX_ZIP_SIZE_BYTES_def)
  from small have cnt: "length (members_of (namelist zf)) \<le> MAX_ZIP_FILE_COUNT"
    by (simp add: MAX_ZIP_FILE_COUNT_def)
  have "process_zip_job host upload_id filename user_oid w
        = (fst (process_zip_job host upload_id filename user_oid w),
           fst (snd (process_zip_job host upload_id filename user_oid w)),
           snd (snd (process_zip_job host upload_id filename user_oid w)))"
    by simp
  from first_snapshot_written [OF assms _ sz _ _ cnt this] pre
  show "progress_calls (snd (snd (process_zip_job host upload_id filename user_oid w))) \<noteq> []"
    by blast
qed

lemma sample_empty_run:
  assumes "data \<noteq> []"
    and "length data \<le> MAX_ZIP_SIZE_BYTES"
    and "length (members_of names) \<le> MAX_ZIP_FILE_COUNT"
    and "to_process_of ''proj'' {''.ts'', ''.md''} (members_of names) = []"
  shows "process_zip_job (sample_host data names failing job) ''s1'' (PStr ''proj.zip'')
           (PStr ''u1'') ()
         = (Inr (), (),
            [GetSessionChunks ''s1'',
             UploadSessionProgress
               \<lparr>snap_upload_id = ''s1'', snap_status = ''processing'', snap_files_total = 0,
                snap_files_done = 0, snap_indexed_ids = [], snap_user_oid = PStr ''u1''\<rparr>,
             UploadSessionProgress
               \<lparr>snap_upload_id = ''s1'', snap_status = ''completed'', snap_files_total = 0,
                snap_files_done = 0, snap_indexed_ids = [], snap_user_oid = PStr ''u1''\<rparr>,
             DeleteSession ''s1'' True])"
proof -
  have "start_job (sample_host data names failing job) ''s1'' (PStr ''proj.zip'') (PStr ''u1'') ()
        = Inr (sample_settings data failing, sample_zip names, [],
               \<lparr>world = (),
                trace = [GetSessionChunks ''s1'',
                         UploadSessionProgress
                           \<lparr>snap_upload_id = ''s1'', snap_status = ''processing'',
                            snap_files_total = 0, snap_files_done = 0, snap_indexed_ids = [],
                            snap_user_oid = PStr ''u1''\<rparr>],
                indexed_ids = [], files_done = 0\<rparr>)"
    using start_job_opened [where host = "sample_host data names failing job"
          and s = "sample_settings data failing" and upload_id = "''s1''" and w = "()"
          and ?w1.0 = "()" and data = data and filename = "PStr ''proj.zip''"
          and zip_basename = "''proj''" and zf = "sample_zip names"
          and user_oid = "PStr ''u1''"]
      assms sample_basename
    by (simp add: Let_def sample_settings_def)
  then show ?thesis
    by (simp add: process_zip_job_def finish_job_def Let_def sample_settings_def)
qed

lemma members_docs_bins:
  "members_of (''docs/'' # replicate n ''a.bin'') = replicate n ''a.bin''"
  using members_bins [of n] by (simp add: members_of_def is_dir_docs)

text \<open>
  Claim C4 as stated fails: an archive of 30001 entries, one of them a directory entry, is
  not rejected. The job runs to its end and writes both snapshots.
\<close>

theorem entry_count_counterexample:
  "length (namelist (sample_zip (''docs/'' # replicate 30000 ''a.bin''))) = 30001
   \<and> MAX_ZIP_FILE_COUNT = 30000
   \<and> process_zip_job (sample_host [1] (''docs/'' # replicate 30000 ''a.bin'') [] (Inr PNone))
        ''s1'' (PStr ''proj.zip'') (PStr ''u1'') ()
      = (Inr (), (),
            [GetSessionChunks ''s1'',
             UploadSessionProgress
               \<lparr>snap_upload_id = ''s1'', snap_status = ''processing'', snap_files_total = 0,
                snap_files_done = 0, snap_indexed_ids = [], snap_user_oid = PStr ''u1''\<rparr>,
             UploadSessionProgress
               \<lparr>snap_upload_id = ''s1'', snap_status = ''completed'', snap_files_total = 0,
                snap_files_done = 0, snap_indexed_ids = [], snap_user_oid = PStr ''u1''\<rparr>,
             DeleteSession ''s1'' True])"
proof -
  have "process_zip_job (sample_host [1] (''docs/'' # replicate 30000 ''a.bin'') [] (Inr PNone))
        ''s1'' (PStr ''proj.zip'') (PStr ''u1'') ()
      = (Inr (), (),
            [GetSessionChunks ''s1'',
             UploadSessionProgress
               \<lparr>snap_upload_id = ''s1'', snap_status = ''processing'', snap_files_total = 0,
                snap_files_done = 0, snap_indexed_ids = [], snap_user_oid = PStr ''u1''\<rparr>,
             UploadSessionProgress
               \<lparr>snap_upload_id = ''s1'', snap_status = ''completed'', snap_files_total = 0,
                snap_files_done = 0, snap_indexed_ids = [], snap_user_oid = PStr ''u1''\<rparr>,
             DeleteSession ''s1'' True])"
    by (rule sample_empty_run)
       (simp_all add: members_docs_bins to_process_bins MAX_ZIP_SIZE_BYTES_def
          MAX_ZIP_FILE_COUNT_def)
  then show ?thesis by (simp add: MAX_ZIP_FILE_COUNT_def)
qed

text \<open>
  The three cases of C4 on sample archives: one byte over the size limit, one file over
  the count limit, and exactly at both limits.
\<close>

theorem archive_limits_enforced_witness:
  "(\<exists>tr. process_zip_job (sample_host (replicate 52428801 0) [''a/b.ts''] [] (Inr PNone))
            ''s1'' (PStr ''proj.zip'') (PStr ''u1'') ()
          = (Inl (ValueError ''Zip exceeds 50 MB limit''), (), tr)
        \<and> progress_calls tr = [] \<and> per_file_calls tr = [])
   \<and> (\<exists>tr. process_zip_job (sample_host [1] (replicate 30001 ''a.bin'') [] (Inr PNone))
            ''s1'' (PStr ''proj.zip'') (PStr ''u1'') ()
          = (Inl (ValueError ''Zip contains too many files (max 30000)''), (), tr)
        \<and> progress_calls tr = [] \<and> per_file_calls tr = [])
   \<and> progress_calls (snd (snd (process_zip_job
         (sample_host (replicate 52428800 0) (replicate 30000 ''a.bin'') [] (Inr PNone))
         ''s1'' (PStr ''proj.zip'') (PStr ''u1'') ()))) \<noteq> []"
proof (intro conjI)
  show "\<exists>tr. process_zip_job (sample_host (replicate 52428801 0) [''a/b.ts''] [] (Inr PNone))
            ''s1'' (PStr ''proj.zip'') (PStr ''u1'') ()
          = (Inl (ValueError ''Zip exceeds 50 MB limit''), (), tr)
        \<and> progress_calls tr = [] \<and> per_file_calls tr = []"
    using archive_limits_enforced [where host = "sample_host (replicate 52428801 0) ([''a/b.ts'']) [] (Inr PNone)"
          and s = "sample_settings (replicate 52428801 0) []" and upload_id = "''s1''" and w = "()"
          and ?w1.0 = "()" and data = "replicate 52428801 0" and filename = "PStr ''proj.zip''"
          and zip_basename = "''proj''" and zf = "sample_zip ([''a/b.ts''])"
          and user_oid = "PStr ''u1''"]
    by simp
next
  show "\<exists>tr. process_zip_job (sample_host [1] (replicate 30001 ''a.bin'') [] (Inr PNone))
            ''s1'' (PStr ''proj.zip'') (PStr ''u1'') ()
          = (Inl (ValueError ''Zip contains too many files (max 30000)''), (), tr)
        \<and> progress_calls tr = [] \<and> per_file_calls tr = []"
    using archive_limits_enforced [where host = "sample_host ([1]) (replicate 30001 ''a.bin'') [] (Inr PNone)"
          and s = "sample_settings ([1]) []" and upload_id = "''s1''" and w = "()"
          and ?w1.0 = "()" and data = "[1]" and filename = "PStr ''proj.zip''"
          and zip_basename = "''proj''" and zf = "sample_zip (replicate 30001 ''a.bin'')"
          and user_oid = "PStr ''u1''"]
    by (simp add: sample_basename members_bins)
next
  show "progress_calls (snd (snd (process_zip_job
         (sample_host (replicate 52428800 0) (replicate 30000 ''a.bin'') [] (Inr PNone))
         ''s1'' (PStr ''proj.zip'') (PStr ''u1'') ()))) \<noteq> []"
    using archive_limits_enforced [where host = "sample_host (replicate 52428800 0) (replicate 30000 ''a.bin'') [] (Inr PNone)"
          and s = "sample_settings (replicate 52428800 0) []" and upload_id = "''s1''" and w = "()"
          and ?w1.0 = "()" and data = "replicate 52428800 0" and filename = "PStr ''proj.zip''"
          and zip_basename = "''proj''" and zf = "sample_zip (replicate 30000 ''a.bin'')"
          and user_oid = "PStr ''u1''"]
    by (simp add: sample_basename members_bins)
qed

lemma sample_members3:
  "members_of [''a/b.ts'', ''README.md'', ''c.ts''] = [''a/b.ts'', ''README.md'', ''c.ts'']"
  by code_simp

lemma sample_to_process3:
  "to_process_of ''proj'' {''.ts'', ''.md''} [''a/b.ts'', ''README.md'', ''c.ts'']
   = [(''a/b.ts'', ''a/b.ts'', ''proj__a__b.ts''),
      (''README.md'', ''README.md'', ''proj__README.md''),
      (''c.ts'', ''c.ts'', ''proj__c.ts'')]"
  by code_simp

lemma sample_members2: "members_of [''a/b.ts'', ''a__b.ts''] = [''a/b.ts'', ''a__b.ts'']"
  by code_simp

lemma sample_to_process2:
  "to_process_of ''proj'' {''.ts'', ''.md''} [''a/b.ts'', ''a__b.ts'']
   = [(''a/b.ts'', ''a/b.ts'', ''proj__a__b.ts''), (''a__b.ts'', ''a__b.ts'', ''proj__a__b.ts'')]"
  by code_simp

lemma sample_start3:
  "start_job (sample_host [1] [''a/b.ts'', ''README.md'', ''c.ts''] ''README.md'' job) ''s1''
     (PStr ''proj.zip'') (PStr ''u1'') ()
   = Inr (sample_settings [1] ''README.md'', sample_zip [''a/b.ts'', ''README.md'', ''c.ts''],
          [(''a/b.ts'', ''a/b.ts'', ''proj__a__b.ts''),
           (''README.md'', ''README.md'', ''proj__README.md''),
           (''c.ts'', ''c.ts'', ''proj__c.ts'')],
          \<lparr>world = (),
           trace = [GetSessionChunks ''s1'',
                    UploadSessionProgress
                      \<lparr>snap_upload_id = ''s1'', snap_status = ''processing'',
                       snap_files_total = 3, snap_files_done = 0, snap_indexed_ids = [],
                       snap_user_oid = PStr ''u1''\<rparr>],
           indexed_ids = [], files_done = 0\<rparr>)"
  using start_job_opened [where host = "sample_host [1] [''a/b.ts'', ''README.md'', ''c.ts''] ''README.md'' job"
          and s = "sample_settings [1] ''README.md''" and upload_id = "''s1''" and w = "()"
          and ?w1.0 = "()" and data = "[1]" and filename = "PStr ''proj.zip''"
          and zip_basename = "''proj''"
          and zf = "sample_zip [''a/b.ts'', ''README.md'', ''c.ts'']"
          and user_oid = "PStr ''u1''"]
  by (simp add: sample_basename sample_members3 sample_to_process3 Let_def
        MAX_ZIP_SIZE_BYTES_def MAX_ZIP_FILE_COUNT_def sample_settings_def)

lemma sample_results3:
  "entry_results (sample_settings [1] ''README.md'')
     (sample_zip [''a/b.ts'', ''README.md'', ''c.ts'']) ''s1'' (PStr ''u1'') 3
     [(''a/b.ts'', ''a/b.ts'', ''proj__a__b.ts''),
      (''README.md'', ''README.md'', ''proj__README.md''),
      (''c.ts'', ''c.ts'', ''proj__c.ts'')]
     \<lparr>world = (),
      trace = [GetSessionChunks ''s1'',
               UploadSessionProgress
                 \<lparr>snap_upload_id = ''s1'', snap_status = ''processing'',
                  snap_files_total = 3, snap_files_done = 0, snap_indexed_ids = [],
                  snap_user_oid = PStr ''u1''\<rparr>],
      indexed_ids = [], files_done = 0\<rparr>
   = [Indexed, Raised AddFileCall (Exn True ''RuntimeError'' ''indexing failed''), Indexed]"
  by (simp add: try_entry_def sample_settings_def sample_zip_def Let_def)

lemma sample_start2:
  "start_job (sample_host [1] [''a/b.ts'', ''a__b.ts''] ''a/b.ts'' job) ''s1''
     (PStr ''proj.zip'') (PStr ''u1'') ()
   = Inr (sample_settings [1] ''a/b.ts'', sample_zip [''a/b.ts'', ''a__b.ts''],
          [(''a/b.ts'', ''a/b.ts'', ''proj__a__b.ts''), (''a__b.ts'', ''a__b.ts'', ''proj__a__b.ts'')],
          \<lparr>world = (),
           trace = [GetSessionChunks ''s1'',
                    UploadSessionProgress
                      \<lparr>snap_upload_id = ''s1'', snap_status = ''processing'',
                       snap_files_total = 2, snap_files_done = 0, snap_indexed_ids = [],
                       snap_user_oid = PStr ''u1''\<rparr>],
           indexed_ids = [], files_done = 0\<rparr>)"
  using start_job_opened [where host = "sample_host [1] [''a/b.ts'', ''a__b.ts''] ''a/b.ts'' job"
          and s = "sample_settings [1] ''a/b.ts''" and upload_id = "''s1''" and w = "()"
          and ?w1.0 = "()" and data = "[1]" and filename = "PStr ''proj.zip''"
          and zip_basename = "''proj''"
          and zf = "sample_zip [''a/b.ts'', ''a__b.ts'']"
          and user_oid = "PStr ''u1''"]
  by (simp add: sample_basename sample_members2 sample_to_process2 Let_def
        MAX_ZIP_SIZE_BYTES_def MAX_ZIP_FILE_COUNT_def sample_settings_def)

lemma sample_results2:
  "entry_results (sample_settings [1] ''a/b.ts'') (sample_zip [''a/b.ts'', ''a__b.ts''])
     ''s1'' (PStr ''u1'') 2
     [(''a/b.ts'', ''a/b.ts'', ''proj__a__b.ts''), (''a__b.ts'', ''a__b.ts'', ''proj__a__b.ts'')]
     \<lparr>world = (),
      trace = [GetSessionChunks ''s1'',
               UploadSessionProgress
                 \<lparr>snap_upload_id = ''s1'', snap_status = ''processing'',
                  snap_files_total = 2, snap_files_done = 0, snap_indexed_ids = [],
                  snap_user_oid = PStr ''u1''\<rparr>],
      indexed_ids = [], files_done = 0\<rparr>
   = [Raised AddFileCall (Exn True ''RuntimeError'' ''indexing failed''), Indexed]"
  by (simp add: try_entry_def sample_settings_def sample_zip_def Let_def)

lemma sample_progress3:
  "progress_calls (snd (snd (process_zip_job
      (sample_host [1] [''a/b.ts'', ''README.md'', ''c.ts''] ''README.md'' job) ''s1''
      (PStr ''proj.zip'') (PStr ''u1'') ())))
   = [\<lparr>snap_upload_id = ''s1'', snap_status = ''processing'', snap_files_total = 3,
       snap_files_done = 0, snap_indexed_ids = [], snap_user_oid = PStr ''u1''\<rparr>,
      \<lparr>snap_upload_id = ''s1'', snap_status = ''processing'', snap_files_total = 3,
       snap_files_done = 1, snap_indexed_ids = [''proj__a__b.ts''],
       snap_user_oid = PStr ''u1''\<rparr>,
      \<lparr>snap_upload_id = ''s1'', snap_status = ''processing'', snap_files_total = 3,
       snap_files_done = 2, snap_indexed_ids = [''proj__a__b.ts'', ''proj__c.ts''],
       snap_user_oid = PStr ''u1''\<rparr>,
      \<lparr>snap_upload_id = ''s1'', snap_status = ''completed'', snap_files_total = 3,
       snap_files_done = 2, snap_indexed_ids = [''proj__a__b.ts'', ''proj__c.ts''],
       snap_user_oid = PStr ''u1''\<rparr>]"
  by (simp add: process_zip_job_def sample_start3 try_entry_def finish_job_def
        sample_settings_def sample_zip_def Let_def)

lemma sample_progress2:
  "progress_calls (snd (snd (process_zip_job
      (sample_host [1] [''a/b.ts'', ''a__b.ts''] ''a/b.ts'' job) ''s1''
      (PStr ''proj.zip'') (PStr ''u1'') ())))
   = [\<lparr>snap_upload_id = ''s1'', snap_status = ''processing'', snap_files_total = 2,
       snap_files_done = 0, snap_indexed_ids = [], snap_user_oid = PStr ''u1''\<rparr>,
      \<lparr>snap_upload_id = ''s1'', snap_status = ''processing'', snap_files_total = 2,
       snap_files_done = 1, snap_indexed_ids = [''proj__a__b.ts''],
       snap_user_oid = PStr ''u1''\<rparr>,
      \<lparr>snap_upload_id = ''s1'', snap_status = ''completed'', snap_files_total = 2,
       snap_files_done = 1, snap_indexed_ids = [''proj__a__b.ts''],
       snap_user_oid = PStr ''u1''\<rparr>]"
  by (simp add: process_zip_job_def sample_start2 try_entry_def finish_job_def
        sample_settings_def sample_zip_def Let_def)

text \<open>
  A run over three files, the second of which fails in \<^verbatim>\<open>add_file\<close>: the snapshots
  carry \<^verbatim>\<open>files_done\<close> 0, 1, 2, 2.
\<close>

theorem progress_snapshots_invariant_witness:
  "map snap_files_done (progress_calls (snd (snd (process_zip_job
      (sample_host [1] [''a/b.ts'', ''README.md'', ''c.ts''] ''README.md'' (Inr PNone)) ''s1''
      (PStr ''proj.zip'') (PStr ''u1'') ())))) = [0, 1, 2, 2]
   \<and> sorted_wrt (\<lambda>a b. snap_files_done a \<le> snap_files_done b)
        (progress_calls (snd (snd (process_zip_job
          (sample_host [1] [''a/b.ts'', ''README.md'', ''c.ts''] ''README.md'' (Inr PNone)) ''s1''
          (PStr ''proj.zip'') (PStr ''u1'') ()))))
   \<and> sorted_wrt (\<lambda>a b. prefix (snap_indexed_ids a) (snap_indexed_ids b))
        (progress_calls (snd (snd (process_zip_job
          (sample_host [1] [''a/b.ts'', ''README.md'', ''c.ts''] ''README.md'' (Inr PNone)) ''s1''
          (PStr ''proj.zip'') (PStr ''u1'') ()))))"
proof -
  let ?run = "process_zip_job
      (sample_host [1] [''a/b.ts'', ''README.md'', ''c.ts''] ''README.md'' (Inr PNone)) ''s1''
      (PStr ''proj.zip'') (PStr ''u1'') ()"
  have run: "?run = (fst ?run, fst (snd ?run), snd (snd ?run))" by (simp only: prod.collapse)
  have "map snap_files_done (progress_calls (snd (snd ?run))) = [0, 1, 2, 2]"
    by (simp add: sample_progress3)
  with progress_snapshots_invariant [OF run] show ?thesis by blast
qed

text \<open>
  The same run, for C1: three eligible files, \<^verbatim>\<open>README.md\<close> fails, and the final
  snapshot lists the two other keys.
\<close>

theorem one_failure_completes_witness:
  "last (progress_calls (snd (snd (process_zip_job
      (sample_host [1] [''a/b.ts'', ''README.md'', ''c.ts''] ''README.md'' (Inr PNone)) ''s1''
      (PStr ''proj.zip'') (PStr ''u1'') ()))))
   = \<lparr>snap_upload_id = ''s1'', snap_status = ''completed'', snap_files_total = 3,
      snap_files_done = 2, snap_indexed_ids = [''proj__a__b.ts'', ''proj__c.ts''],
      snap_user_oid = PStr ''u1''\<rparr>
   \<and> ''proj__README.md'' \<notin> set (snap_indexed_ids (last (progress_calls (snd (snd (process_zip_job
      (sample_host [1] [''a/b.ts'', ''README.md'', ''c.ts''] ''README.md'' (Inr PNone)) ''s1''
      (PStr ''proj.zip'') (PStr ''u1'') ()))))))"
proof -
  let ?tp = "[(''a/b.ts'', ''a/b.ts'', ''proj__a__b.ts''),
              (''README.md'', ''README.md'', ''proj__README.md''),
              (''c.ts'', ''c.ts'', ''proj__c.ts'')]"
  let ?j0 = "\<lparr>world = (),
      trace = [GetSessionChunks ''s1'',
               UploadSessionProgress
                 \<lparr>snap_upload_id = ''s1'', snap_status = ''processing'',
                  snap_files_total = 3, snap_files_done = 0, snap_indexed_ids = [],
                  snap_user_oid = PStr ''u1''\<rparr>],
      indexed_ids = [], files_done = 0\<rparr>"
  have rs: "entry_results (sample_settings [1] ''README.md'')
              (sample_zip [''a/b.ts'', ''README.md'', ''c.ts'']) ''s1'' (PStr ''u1'')
              (length ?tp) ?tp ?j0
            = replicate 1 Indexed @ Raised AddFileCall (Exn True ''RuntimeError'' ''indexing failed'')
                # replicate 1 Indexed"
    by (simp add: try_entry_def sample_settings_def sample_zip_def Let_def)
  have other: "\<forall>m<length ?tp. m \<noteq> 1 \<longrightarrow> snd (snd (?tp ! m)) \<noteq> snd (snd (?tp ! 1))"
    by (simp add: less_Suc_eq nth_Cons')
  have st: "AddFileCall \<noteq> ProgressWrite" by simp
  have ex: "is_Exception (Exn True ''RuntimeError'' ''indexing failed'')" by simp
  from one_failure_completes [OF sample_start3 [of "Inr PNone"] rs st ex]
  obtain j r w' tr where
    A: "process_zip_job
      (sample_host [1] [''a/b.ts'', ''README.md'', ''c.ts''] ''README.md'' (Inr PNone)) ''s1''
      (PStr ''proj.zip'') (PStr ''u1'') () = (r, w', tr)"
    and B: "last (progress_calls tr) =
             \<lparr>snap_upload_id = ''s1'', snap_status = ''completed'',
              snap_files_total = length ?tp,
              snap_files_done = length ?tp - 1,
              snap_indexed_ids = map (\<lambda>x. snd (snd x)) (take 1 ?tp @ drop (Suc 1) ?tp),
              snap_user_oid = PStr ''u1''\<rparr>"
    and C: "(\<forall>m<length ?tp. m \<noteq> 1 \<longrightarrow> snd (snd (?tp ! m)) \<noteq> snd (snd (?tp ! 1)))
            \<longrightarrow> snd (snd (?tp ! 1)) \<notin> set (snap_indexed_ids (last (progress_calls tr)))"
    by blast
  from C other have D: "snd (snd (?tp ! 1)) \<notin> set (snap_indexed_ids (last (progress_calls tr)))"
    by blast
  from A have "snd (snd (process_zip_job
      (sample_host [1] [''a/b.ts'', ''README.md'', ''c.ts''] ''README.md'' (Inr PNone)) ''s1''
      (PStr ''proj.zip'') (PStr ''u1'') ())) = tr" by simp
  with B D show ?thesis by simp
qed

text \<open>
  Claim C1 as stated fails in its last part: the members \<^verbatim>\<open>a/b.ts\<close> and \<^verbatim>\<open>a__b.ts\<close> are
  both eligible and flatten to the same key. When \<^verbatim>\<open>add_file\<close> raises for the first and
  the second is indexed, exactly one entry has failed, and its flattened key is in the
  final snapshot's \<^verbatim>\<open>indexed_ids\<close>.
\<close>

theorem failed_key_indexed_counterexample:
  "to_process_of ''proj'' {''.ts'', ''.md''} (members_of [''a/b.ts'', ''a__b.ts''])
   = [(''a/b.ts'', ''a/b.ts'', ''proj__a__b.ts''), (''a__b.ts'', ''a__b.ts'', ''proj__a__b.ts'')]
   \<and> entry_results (sample_settings [1] ''a/b.ts'') (sample_zip [''a/b.ts'', ''a__b.ts''])
     ''s1'' (PStr ''u1'') 2
     [(''a/b.ts'', ''a/b.ts'', ''proj__a__b.ts''), (''a__b.ts'', ''a__b.ts'', ''proj__a__b.ts'')]
     \<lparr>world = (),
      trace = [GetSessionChunks ''s1'',
               UploadSessionProgress
                 \<lparr>snap_upload_id = ''s1'', snap_status = ''processing'',
                  snap_files_total = 2, snap_files_done = 0, snap_indexed_ids = [],
                  snap_user_oid = PStr ''u1''\<rparr>],
      indexed_ids = [], files_done = 0\<rparr>
     = [Raised AddFileCall (Exn True ''RuntimeError'' ''indexing failed''), Indexed]
   \<and> last (progress_calls (snd (snd (process_zip_job
        (sample_host [1] [''a/b.ts'', ''a__b.ts''] ''a/b.ts'' (Inr PNone)) ''s1''
        (PStr ''proj.zip'') (PStr ''u1'') ()))))
     = \<lparr>snap_upload_id = ''s1'', snap_status = ''completed'', snap_files_total = 2,
        snap_files_done = 1, snap_indexed_ids = [''proj__a__b.ts''],
        snap_user_oid = PStr ''u1''\<rparr>
   \<and> ''proj__a__b.ts'' \<in> set (snap_indexed_ids (last (progress_calls (snd (snd (process_zip_job
        (sample_host [1] [''a/b.ts'', ''a__b.ts''] ''a/b.ts'' (Inr PNone)) ''s1''
        (PStr ''proj.zip'') (PStr ''u1'') ()))))))"
proof (intro conjI)
  show "to_process_of ''proj'' {''.ts'', ''.md''} (members_of [''a/b.ts'', ''a__b.ts''])
        = [(''a/b.ts'', ''a/b.ts'', ''proj__a__b.ts''),
           (''a__b.ts'', ''a__b.ts'', ''proj__a__b.ts'')]"
    by (simp add: sample_members2 sample_to_process2)
qed (simp_all only: sample_results2 sample_progress2, simp_all)

subsection \<open>Flattened keys\<close>

lemma str_replace_Nil [simp]: "str_replace c new [] = []"
  by (simp add: str_replace_def)

lemma str_replace_Cons [simp]:
  "str_replace c new (x # xs) = (if x = c then new else [x]) @ str_replace c new xs"
  by (simp add: str_replace_def)

lemma underscore_safe_tl: "underscore_safe (x # xs) \<Longrightarrow> underscore_safe xs"
  by (cases xs) auto

lemma underscore_safe_head:
  "underscore_safe (CHR ''_'' # ys) \<Longrightarrow> str_replace CHR ''/'' ''__'' ys \<noteq> CHR ''_'' # r"
  by (cases ys) (auto split: if_splits)

lemma flatten_inj:
  "underscore_safe p \<Longrightarrow> underscore_safe q \<Longrightarrow>
   str_replace CHR ''/'' ''__'' p = str_replace CHR ''/'' ''__'' q \<Longrightarrow> p = q"
proof (induction p arbitrary: q)
  case Nil
  then show ?case by (cases q) (auto split: if_splits)
next
  case (Cons x xs)
  show ?case
  proof (cases q)
    case Nil
    with Cons.prems show ?thesis by (auto split: if_splits)
  next
    case (Cons y ys)
    have sx: "underscore_safe xs" using Cons.prems(1) by (rule underscore_safe_tl)
    have sy: "underscore_safe ys" using Cons.prems(2) Cons by (auto dest: underscore_safe_tl)
    have eq: "(if x = CHR ''/'' then ''__'' else [x]) @ str_replace CHR ''/'' ''__'' xs
            = (if y = CHR ''/'' then ''__'' else [y]) @ str_replace CHR ''/'' ''__'' ys"
      using Cons.prems(3) Cons by simp
    consider (both) "x = CHR ''/''" "y = CHR ''/''"
      | (neither) "x \<noteq> CHR ''/''" "y \<noteq> CHR ''/''"
      | (left) "x = CHR ''/''" "y \<noteq> CHR ''/''"
      | (right) "x \<noteq> CHR ''/''" "y = CHR ''/''"
      by blast
    then show ?thesis
    proof cases
      case both
      with eq have "str_replace CHR ''/'' ''__'' xs = str_replace CHR ''/'' ''__'' ys" by simp
      with Cons.IH sx sy have "xs = ys" by blast
      with both Cons show ?thesis by simp
    next
      case neither
      with eq have "x = y" "str_replace CHR ''/'' ''__'' xs = str_replace CHR ''/'' ''__'' ys"
        by simp_all
      with Cons.IH sx sy Cons show ?thesis by blast
    next
      case left
      with eq have e: "CHR ''_'' # CHR ''_'' # str_replace CHR ''/'' ''__'' xs
                     = y # str_replace CHR ''/'' ''__'' ys" by auto
      from e have y: "y = CHR ''_''" by (metis list.inject)
      from e have "str_replace CHR ''/'' ''__'' ys = CHR ''_'' # str_replace CHR ''/'' ''__'' xs"
        by (metis list.inject)
      moreover have "underscore_safe (CHR ''_'' # ys)" using Cons.prems(2) Cons y by simp
      ultimately show ?thesis using underscore_safe_head by blast
    next
      case right
      with eq have e: "x # str_replace CHR ''/'' ''__'' xs
                     = CHR ''_'' # CHR ''_'' # str_replace CHR ''/'' ''__'' ys" by auto
      from e have x: "x = CHR ''_''" by (metis list.inject)
      from e have "str_replace CHR ''/'' ''__'' xs = CHR ''_'' # str_replace CHR ''/'' ''__'' ys"
        by (metis list.inject)
      moreover have "underscore_safe (CHR ''_'' # xs)" using Cons.prems(1) x by simp
      ultimately show ?thesis using underscore_safe_head by blast
    qed
  qed
qed

text \<open>
  Claim C3, as amended. For a fixed archive basename, two relative paths in which no
  underscore is directly followed by another underscore or by a slash have the same
  flattened key only if they are the same path.
\<close>

theorem flattened_key_injective:
  "underscore_safe p \<Longrightarrow> underscore_safe q \<Longrightarrow>
   flattened_key zip_basename p = flattened_key zip_basename q \<Longrightarrow> p = q"
  by (auto simp: flattened_key_def dest: flatten_inj)

text \<open>
  The specification's example, and two distinct paths of that kind with distinct keys.
\<close>

theorem flattened_key_injective_witness:
  "underscore_safe ''src/app.tsx'' \<and> underscore_safe ''src/my_app.tsx''
   \<and> flattened_key ''proj'' ''src/app.tsx'' = ''proj__src__app.tsx''
   \<and> flattened_key ''proj'' ''src/app.tsx'' \<noteq> flattened_key ''proj'' ''src/my_app.tsx''"
proof -
  have a: "underscore_safe ''src/app.tsx''" by simp
  have b: "underscore_safe ''src/my_app.tsx''" by simp
  have c: "flattened_key ''proj'' ''src/app.tsx'' = ''proj__src__app.tsx''"
    by (simp add: flattened_key_def)
  have "''src/app.tsx'' \<noteq> ''src/my_app.tsx''" by simp
  with flattened_key_injective [OF a b, of "''proj''"]
  have "flattened_key ''proj'' ''src/app.tsx'' \<noteq> flattened_key ''proj'' ''src/my_app.tsx''"
    by blast
  with a b c show ?thesis by blast
qed

lemma eligible_ab: "eligible {''.ts''} ''a/b.ts''" "eligible {''.ts''} ''a__b.ts''"
  by code_simp+

text \<open>
  Claim C3 as stated fails: the distinct eligible relative paths \<^verbatim>\<open>a/b.ts\<close> and
  \<^verbatim>\<open>a__b.ts\<close> have the same flattened key under the basename \<^verbatim>\<open>proj\<close>.
\<close>

theorem flattened_key_collision_counterexample:
  "''a/b.ts'' \<noteq> ''a__b.ts''
   \<and> eligible {''.ts''} ''a/b.ts'' \<and> eligible {''.ts''} ''a__b.ts''
   \<and> flattened_key ''proj'' ''a/b.ts'' = ''proj__a__b.ts''
   \<and> flattened_key ''proj'' ''a__b.ts'' = ''proj__a__b.ts''"
  by (simp add: flattened_key_def eligible_ab)

subsection \<open>The session id of a trigger path\<close>

lemma str_split_nosep: "c \<notin> set s \<Longrightarrow> str_split c s = [s]"
  by (induction s) (auto split: list.splits)

lemma str_split_append:
  "c \<notin> set s \<Longrightarrow> str_split c (s @ c # t) = s # str_split c t"
  by (induction s) (auto split: list.splits)

lemma str_split_join:
  "segs \<noteq> [] \<Longrightarrow> \<forall>s\<in>set segs. c \<notin> set s \<Longrightarrow> str_split c (str_join c segs) = segs"
  by (induction c segs rule: str_join.induct) (auto simp: str_split_nosep str_split_append)

text \<open>
  Claim C7, as amended. Let the normalized path (backslashes turned into slashes, leading
  and trailing slashes stripped) be the segments \<open>segs\<close> joined by slashes. With two or
  more segments the upload id is the second-from-last segment; with a single, non-empty
  segment it is that segment itself.
\<close>

theorem upload_id_from_path:
  assumes "normalized_path path = str_join CHR ''/'' segs"
    and "segs \<noteq> []"
    and "\<forall>s\<in>set segs. CHR ''/'' \<notin> set s"
  shows "(2 \<le> length segs \<longrightarrow> derive_upload_id path = segs ! (length segs - 2))
       \<and> (length segs = 1 \<and> hd segs \<noteq> [] \<longrightarrow> derive_upload_id path = hd segs)"
proof -
  have "path_parts path = segs"
    using assms by (simp add: path_parts_def str_split_join)
  then show ?thesis
    using assms(2) by (cases segs) (auto simp: derive_upload_id_def Let_def)
qed

lemma normalized_samples:
  "normalized_path ''user-content/_sessions/abc123/_job.json''
   = ''user-content/_sessions/abc123/_job.json''"
  "normalized_path ''_job.json'' = ''_job.json''"
  by (simp_all add: normalized_path_def str_strip_def backslash_def)

text \<open>The trigger path of the function, and a path of one segment.\<close>

theorem upload_id_from_path_witness:
  "derive_upload_id ''user-content/_sessions/abc123/_job.json'' = ''abc123''
   \<and> derive_upload_id ''_job.json'' = ''_job.json''"
proof
  show "derive_upload_id ''user-content/_sessions/abc123/_job.json'' = ''abc123''"
    using upload_id_from_path [of "''user-content/_sessions/abc123/_job.json''"
        "[''user-content'', ''_sessions'', ''abc123'', ''_job.json'']"]
    by (simp add: normalized_samples)
  show "derive_upload_id ''_job.json'' = ''_job.json''"
    using upload_id_from_path [of "''_job.json''" "[''_job.json'']"]
    by (simp add: normalized_samples)
qed

text \<open>
  Claim C7 as stated fails in its second part: the path \<^verbatim>\<open>_job.json\<close> has fewer than
  two segments, and its upload id is the segment itself, not the sentinel
  \<^verbatim>\<open>"unknown"\<close>.
\<close>

theorem upload_id_sentinel_counterexample:
  "length (path_parts ''_job.json'') < 2
   \<and> derive_upload_id ''_job.json'' = ''_job.json''
   \<and> derive_upload_id ''_job.json'' \<noteq> ''unknown''"
  by (simp add: derive_upload_id_def path_parts_def normalized_samples)

subsection \<open>The count cap and directory entries\<close>

text \<open>
  Claim C5, as amended. For an archive that passes the size check and opens, the count
  compared against the maximum of 30000 is the number of entries that are not directory
  entries: the job is rejected before its first snapshot exactly when that number exceeds
  30000. Directory entries are dropped before the check; separator normalization and
  extension filtering come after it, on the remaining entries, and give the
  \<^verbatim>\<open>files_total\<close> of the first snapshot.
\<close>

theorem count_cap_counts_files:
  assumes "get_settings host = Inr s"
    and "get_session_chunks s upload_id w = (Inr data, w1)"
    and "data \<noteq> []"
    and "length data \<le> 50 * 1024 * 1024"
    and "zip_basename_of filename = Inr zip_basename"
    and "zipfile_ZipFile host data = Inr zf"
    and "process_zip_job host upload_id filename user_oid w = (r, w', tr)"
  shows "(progress_calls tr = []
            \<longleftrightarrow> 30000 < length (filter (\<lambda>m. \<not> str_endswith CHR ''/'' m) (namelist zf)))
       \<and> (length (filter (\<lambda>m. \<not> str_endswith CHR ''/'' m) (namelist zf)) \<le> 30000 \<longrightarrow>
            snap_files_total (hd (progress_calls tr))
            = length (filter (\<lambda>name. eligible (set (file_processors_keys s)) (rel_path_of name))
                        (filter (\<lambda>m. \<not> str_endswith CHR ''/'' m) (namelist zf))))"
proof -
  have sz: "length data \<le> MAX_ZIP_SIZE_BYTES"
    using assms(4) by (simp add: MAX_ZIP_SIZE_BYTES_def)
  show ?thesis
  proof (cases "30000 < length (members_of (namelist zf))")
    case True
    then have "start_job host upload_id filename user_oid w
          = Inl (ValueError ''Zip contains too many files (max 30000)'', w1,
                 [GetSessionChunks upload_id])"
      using start_job_opened [OF assms(1-3) sz assms(5,6), of user_oid]
      by (simp add: MAX_ZIP_FILE_COUNT_def)
    with assms(7) have "tr = [GetSessionChunks upload_id]"
      by (simp add: process_zip_job_def)
    with True show ?thesis by (simp add: members_of_def)
  next
    case False
    then have cnt: "length (members_of (namelist zf)) \<le> MAX_ZIP_FILE_COUNT"
      by (simp add: MAX_ZIP_FILE_COUNT_def)
    from first_snapshot_written [OF assms(1-3) sz assms(5,6) cnt assms(7)] False
    show ?thesis by (simp add: members_of_def to_process_of_def)
  qed
qed

lemma dir_entries: "str_endswith CHR ''/'' ''docs/''" "\<not> str_endswith CHR ''/'' ''a/b.ts''"
  "\<not> str_endswith CHR ''/'' ''x.bin''"
  by (simp_all add: str_endswith_def)

lemma eligible_samples: "eligible {''.ts'', ''.md''} (rel_path_of ''a/b.ts'')"
  "\<not> eligible {''.ts'', ''.md''} (rel_path_of ''x.bin'')"
  by code_simp+

text \<open>
  An archive with a directory entry, a supported file and an unsupported one: it is
  accepted with \<^verbatim>\<open>files_total = 1\<close>.
\<close>

theorem count_cap_counts_files_witness:
  "progress_calls (snd (snd (process_zip_job
      (sample_host [1] [''docs/'', ''a/b.ts'', ''x.bin''] [] (Inr PNone)) ''s1''
      (PStr ''proj.zip'') (PStr ''u1'') ()))) \<noteq> []
   \<and> snap_files_total (hd (progress_calls (snd (snd (process_zip_job
      (sample_host [1] [''docs/'', ''a/b.ts'', ''x.bin''] [] (Inr PNone)) ''s1''
      (PStr ''proj.zip'') (PStr ''u1'') ()))))) = 1"
proof -
  let ?run = "process_zip_job
      (sample_host [1] [''docs/'', ''a/b.ts'', ''x.bin''] [] (Inr PNone)) ''s1''
      (PStr ''proj.zip'') (PStr ''u1'') ()"
  have run: "?run = (fst ?run, fst (snd ?run), snd (snd ?run))" by (simp only: prod.collapse)
  have gs: "get_settings (sample_host [1] [''docs/'', ''a/b.ts'', ''x.bin''] [] (Inr PNone))
            = Inr (sample_settings [1] [])" by simp
  have ch: "get_session_chunks (sample_settings [1] []) ''s1'' () = (Inr [1], ())" by simp
  have zo: "zipfile_ZipFile (sample_host [1] [''docs/'', ''a/b.ts'', ''x.bin''] [] (Inr PNone)) [1]
            = Inr (sample_zip [''docs/'', ''a/b.ts'', ''x.bin''])" by simp
  from count_cap_counts_files [OF gs ch _ _ sample_basename zo run]
  show ?thesis by (simp add: dir_entries eligible_samples)
qed

text \<open>
  Claim C5 as stated fails: an archive whose full entry count is 30001, all of them
  directory entries, exceeds the maximum and is accepted, because the directory entries
  are dropped before the count is compared.
\<close>

theorem full_entry_count_counterexample:
  "length (namelist (sample_zip (replicate 30001 ''docs/''))) = 30001
   \<and> MAX_ZIP_FILE_COUNT = 30000
   \<and> members_of (namelist (sample_zip (replicate 30001 ''docs/''))) = []
   \<and> process_zip_job (sample_host [1] (replicate 30001 ''docs/'') [] (Inr PNone))
        ''s1'' (PStr ''proj.zip'') (PStr ''u1'') ()
      = (Inr (), (),
            [GetSessionChunks ''s1'',
             UploadSessionProgress
               \<lparr>snap_upload_id = ''s1'', snap_status = ''processing'', snap_files_total = 0,
                snap_files_done = 0, snap_indexed_ids = [], snap_user_oid = PStr ''u1''\<rparr>,
             UploadSessionProgress
               \<lparr>snap_upload_id = ''s1'', snap_status = ''completed'', snap_files_total = 0,
                snap_files_done = 0, snap_indexed_ids = [], snap_user_oid = PStr ''u1''\<rparr>,
             DeleteSession ''s1'' True])"
proof -
  have "process_zip_job (sample_host [1] (replicate 30001 ''docs/'') [] (Inr PNone))
        ''s1'' (PStr ''proj.zip'') (PStr ''u1'') ()
      = (Inr (), (),
            [GetSessionChunks ''s1'',
             UploadSessionProgress
               \<lparr>snap_upload_id = ''s1'', snap_status = ''processing'', snap_files_total = 0,
                snap_files_done = 0, snap_indexed_ids = [], snap_user_oid = PStr ''u1''\<rparr>,
             UploadSessionProgress
               \<lparr>snap_upload_id = ''s1'', snap_status = ''completed'', snap_files_total = 0,
                snap_files_done = 0, snap_indexed_ids = [], snap_user_oid = PStr ''u1''\<rparr>,
             DeleteSession ''s1'' True])"
    by (rule sample_empty_run)
       (simp_all add: members_docs to_process_of_def MAX_ZIP_SIZE_BYTES_def
          MAX_ZIP_FILE_COUNT_def)
  then show ?thesis by (simp add: MAX_ZIP_FILE_COUNT_def members_docs)
qed

subsection \<open>The trigger handler\<close>

text \<open>
  The part of C6 that the code meets. \<^verbatim>\<open>zip_processor\<close> returns normally, after logging,
  when reading or decoding the job body raises an \<^verbatim>\<open>Exception\<close>, and when the body
  decodes to a JSON object that lacks \<^verbatim>\<open>filename\<close> or \<^verbatim>\<open>user_oid\<close>; the world is
  untouched and nothing but the log record is emitted. When \<^verbatim>\<open>process_zip_job\<close>
  raises, the handler raises the same exception, and logs it first when it is an
  \<^verbatim>\<open>Exception\<close>.
\<close>

theorem handler_returns_or_reraises:
  "((blob_read blob = Inl e \<or> (\<exists>body. blob_read blob = Inr body \<and> json_loads host body = Inl e))
      \<and> is_Exception e \<longrightarrow>
      zip_processor host blob w
      = (Inr (), w,
         [Log EXCEPTION ''Invalid _job.json for %s: %s''
            [ArgVal (PStr (derive_upload_id (blob_name blob))), ArgExn e]]))
   \<and> (blob_read blob = Inr body \<and> json_loads host body = Inr (PDict kvs)
      \<and> (map_of kvs ''filename'' = None \<or> map_of kvs ''user_oid'' = None) \<longrightarrow>
      zip_processor host blob w
      = (Inr (), w,
         [Log ERROR ''Missing filename or user_oid in _job.json for %s''
            [ArgVal (PStr (derive_upload_id (blob_name blob)))]]))
   \<and> (blob_read blob = Inr body \<and> json_loads host body = Inr job
      \<and> py_get job ''filename'' = Inr filename \<and> py_get job ''user_oid'' = Inr user_oid
      \<and> truthy filename \<and> truthy user_oid
      \<and> process_zip_job host (derive_upload_id (blob_name blob)) filename user_oid w
          = (Inl e, w', tr) \<longrightarrow>
      fst (zip_processor host blob w) = Inl e
      \<and> (is_Exception e \<longrightarrow>
           zip_processor host blob w
           = (Inl e, w',
              [Log INFO ''Processing zip job %s for user %s''
                 [ArgVal (PStr (derive_upload_id (blob_name blob))), ArgVal user_oid]]
              @ tr
              @ [Log EXCEPTION ''Failed zip job %s: %s''
                   [ArgVal (PStr (derive_upload_id (blob_name blob))), ArgExn e]])))"
proof (intro conjI impI)
  assume "(blob_read blob = Inl e \<or> (\<exists>body. blob_read blob = Inr body \<and> json_loads host body = Inl e))
      \<and> is_Exception e"
  then show "zip_processor host blob w
      = (Inr (), w,
         [Log EXCEPTION ''Invalid _job.json for %s: %s''
            [ArgVal (PStr (derive_upload_id (blob_name blob))), ArgExn e]])"
    by (auto simp: zip_processor_def Let_def)
next
  assume "blob_read blob = Inr body \<and> json_loads host body = Inr (PDict kvs)
      \<and> (map_of kvs ''filename'' = None \<or> map_of kvs ''user_oid'' = None)"
  then show "zip_processor host blob w
      = (Inr (), w,
         [Log ERROR ''Missing filename or user_oid in _job.json for %s''
            [ArgVal (PStr (derive_upload_id (blob_name blob)))]])"
    by (auto simp: zip_processor_def Let_def py_get_def)
next
  assume a: "blob_read blob = Inr body \<and> json_loads host body = Inr job
      \<and> py_get job ''filename'' = Inr filename \<and> py_get job ''user_oid'' = Inr user_oid
      \<and> truthy filename \<and> truthy user_oid
      \<and> process_zip_job host (derive_upload_id (blob_name blob)) filename user_oid w
          = (Inl e, w', tr)"
  then show "fst (zip_processor host blob w) = Inl e"
    by (simp add: zip_processor_def Let_def)
  assume "is_Exception e"
  with a show "zip_processor host blob w
           = (Inl e, w',
              [Log INFO ''Processing zip job %s for user %s''
                 [ArgVal (PStr (derive_upload_id (blob_name blob))), ArgVal user_oid]]
              @ tr
              @ [Log EXCEPTION ''Failed zip job %s: %s''
                   [ArgVal (PStr (derive_upload_id (blob_name blob))), ArgExn e]])"
    by (simp add: zip_processor_def Let_def)
qed

text \<open>
  Claim C10. When the decoded descriptor holds a falsy \<^verbatim>\<open>filename\<close> or \<^verbatim>\<open>user_oid\<close>
  (an empty string, zero, \<^verbatim>\<open>null\<close>, \<^verbatim>\<open>false\<close>, an empty list or object),
  \<^verbatim>\<open>zip_processor\<close> does what it does for an absent field: it logs the error and returns;
  \<^verbatim>\<open>process_zip_job\<close> is not run, so no collaborator is called and the world is unchanged.
\<close>

theorem falsy_fields_rejected:
  assumes "blob_read blob = Inr body"
    and "json_loads host body = Inr (PDict kvs)"
    and "(\<exists>v. map_of kvs ''filename'' = Some v \<and> \<not> truthy v)
       \<or> (\<exists>v. map_of kvs ''user_oid'' = Some v \<and> \<not> truthy v)"
  shows "zip_processor host blob w
         = (Inr (), w,
            [Log ERROR ''Missing filename or user_oid in _job.json for %s''
               [ArgVal (PStr (derive_upload_id (blob_name blob)))]])"
  using assms by (auto simp: zip_processor_def Let_def py_get_def split: option.splits)

text \<open>
  Claim C6 says that \<^verbatim>\<open>zip_processor\<close> returns normally when \<^verbatim>\<open>filename\<close> or
  \<^verbatim>\<open>user_oid\<close> is missing from the parsed descriptor. The code does not, when the body
  is valid JSON that is not an object (\<^verbatim>\<open>null\<close>, a list, a string, a number): decoding
  succeeds, both fields are missing, and \<^verbatim>\<open>job.get("filename")\<close>, which stands outside
  both \<^verbatim>\<open>try\<close> blocks, raises an \<^verbatim>\<open>AttributeError\<close> that leaves the handler with
  nothing logged and the world untouched.
\<close>

theorem non_object_body_raises:
  assumes "blob_read blob = Inr body"
    and "json_loads host body = Inr job"
    and "\<forall>kvs. job \<noteq> PDict kvs"
  shows "zip_processor host blob w
         = (Inl (AttributeError (quoted (py_type_name job) @ '' object has no attribute ''
                    @ quoted ''get'')), w, [])"
  using assms by (cases job) (auto simp: zip_processor_def Let_def py_get_def)

lemma sample_json_loads [simp]: "json_loads (sample_host data names failing job) body = job"
  by (simp add: sample_host_def)

lemma sample_blob_fields [simp]:
  "blob_read sample_blob = Inr [123, 125]"
  "blob_name sample_blob = ''user-content/_sessions/s1/_job.json''"
  by (simp_all add: sample_blob_def)

lemma sample_upload_id [simp]:
  "derive_upload_id ''user-content/_sessions/s1/_job.json'' = ''s1''"
  by (simp add: derive_upload_id_def path_parts_def normalized_path_def str_strip_def
        backslash_def)

lemma sample_no_chunks:
  "process_zip_job (sample_host [] names failing job) ''s1'' filename user_oid ()
   = (Inl (ValueError ''No chunks found for session s1''), (), [GetSessionChunks ''s1''])"
  by (simp add: process_zip_job_def start_job_def Let_def)

text \<open>The bodies \<^verbatim>\<open>null\<close> and \<^verbatim>\<open>[]\<close>: the handler raises and logs nothing.\<close>

theorem non_object_body_raises_witness:
  "zip_processor (sample_host [1] [''a/b.ts''] [] (Inr PNone)) sample_blob ()
   = (Inl (AttributeError (quoted ''NoneType'' @ '' object has no attribute '' @ quoted ''get'')),
      (), [])
   \<and> zip_processor (sample_host [1] [''a/b.ts''] [] (Inr (PList []))) sample_blob ()
   = (Inl (AttributeError (quoted ''list'' @ '' object has no attribute '' @ quoted ''get'')),
      (), [])"
proof
  show "zip_processor (sample_host [1] [''a/b.ts''] [] (Inr PNone)) sample_blob ()
   = (Inl (AttributeError (quoted ''NoneType'' @ '' object has no attribute '' @ quoted ''get'')),
      (), [])"
    using non_object_body_raises [where blob = sample_blob and body = "[123, 125]"
        and host = "sample_host [1] [''a/b.ts''] [] (Inr PNone)" and job = PNone and w = "()"]
    by simp
  show "zip_processor (sample_host [1] [''a/b.ts''] [] (Inr (PList []))) sample_blob ()
   = (Inl (AttributeError (quoted ''list'' @ '' object has no attribute '' @ quoted ''get'')),
      (), [])"
    using non_object_body_raises [where blob = sample_blob and body = "[123, 125]"
        and host = "sample_host [1] [''a/b.ts''] [] (Inr (PList []))" and job = "PList []"
        and w = "()"]
    by simp
qed

text \<open>
  Three runs of the handler: a body that does not decode, a descriptor without
  \<^verbatim>\<open>user_oid\<close>, and a job whose session has no chunks.
\<close>

theorem handler_returns_or_reraises_witness:
  "zip_processor (sample_host [1] [] [] (Inl (ValueError ''Expecting value''))) sample_blob ()
   = (Inr (), (),
      [Log EXCEPTION ''Invalid _job.json for %s: %s''
         [ArgVal (PStr ''s1''), ArgExn (ValueError ''Expecting value'')]])
   \<and> zip_processor (sample_host [1] [] [] (Inr (PDict [(''filename'', PStr ''proj.zip'')])))
       sample_blob ()
   = (Inr (), (),
      [Log ERROR ''Missing filename or user_oid in _job.json for %s'' [ArgVal (PStr ''s1'')]])
   \<and> zip_processor
       (sample_host [] [] []
          (Inr (PDict [(''filename'', PStr ''proj.zip''), (''user_oid'', PStr ''u1'')])))
       sample_blob ()
   = (Inl (ValueError ''No chunks found for session s1''), (),
      [Log INFO ''Processing zip job %s for user %s'' [ArgVal (PStr ''s1''), ArgVal (PStr ''u1'')],
       GetSessionChunks ''s1'',
       Log EXCEPTION ''Failed zip job %s: %s''
         [ArgVal (PStr ''s1''), ArgExn (ValueError ''No chunks found for session s1'')]])"
proof (intro conjI)
  show "zip_processor (sample_host [1] [] [] (Inl (ValueError ''Expecting value''))) sample_blob ()
   = (Inr (), (),
      [Log EXCEPTION ''Invalid _job.json for %s: %s''
         [ArgVal (PStr ''s1''), ArgExn (ValueError ''Expecting value'')]])"
    using handler_returns_or_reraises [where blob = sample_blob
        and host = "sample_host [1] [] [] (Inl (ValueError ''Expecting value''))"
        and e = "ValueError ''Expecting value''" and w = "()"]
    by (simp add: ValueError_def)
next
  show "zip_processor (sample_host [1] [] [] (Inr (PDict [(''filename'', PStr ''proj.zip'')])))
       sample_blob ()
   = (Inr (), (),
      [Log ERROR ''Missing filename or user_oid in _job.json for %s'' [ArgVal (PStr ''s1'')]])"
    using handler_returns_or_reraises [where blob = sample_blob
        and host = "sample_host [1] [] [] (Inr (PDict [(''filename'', PStr ''proj.zip'')]))"
        and body = "[123, 125]" and kvs = "[(''filename'', PStr ''proj.zip'')]" and w = "()"]
    by simp
next
  show "zip_processor
       (sample_host [] [] []
          (Inr (PDict [(''filename'', PStr ''proj.zip''), (''user_oid'', PStr ''u1'')])))
       sample_blob ()
   = (Inl (ValueError ''No chunks found for session s1''), (),
      [Log INFO ''Processing zip job %s for user %s'' [ArgVal (PStr ''s1''), ArgVal (PStr ''u1'')],
       GetSessionChunks ''s1'',
       Log EXCEPTION ''Failed zip job %s: %s''
         [ArgVal (PStr ''s1''), ArgExn (ValueError ''No chunks found for session s1'')]])"
    using handler_returns_or_reraises [where blob = sample_blob
        and host = "sample_host [] [] []
          (Inr (PDict [(''filename'', PStr ''proj.zip''), (''user_oid'', PStr ''u1'')]))"
        and body = "[123, 125]"
        and job = "PDict [(''filename'', PStr ''proj.zip''), (''user_oid'', PStr ''u1'')]"
        and filename = "PStr ''proj.zip''" and user_oid = "PStr ''u1''"
        and e = "ValueError ''No chunks found for session s1''" and w = "()" and w' = "()"
        and tr = "[GetSessionChunks ''s1'']"]
    by (simp add: sample_no_chunks py_get_def ValueError_def)
qed

text \<open>Descriptors with \<^verbatim>\<open>filename = ""\<close> and with \<^verbatim>\<open>user_oid = 0\<close>.\<close>

theorem falsy_fields_rejected_witness:
  "zip_processor
     (sample_host [1] [''a/b.ts''] []
        (Inr (PDict [(''filename'', PStr []), (''user_oid'', PStr ''u1'')])))
     sample_blob ()
   = (Inr (), (),
      [Log ERROR ''Missing filename or user_oid in _job.json for %s'' [ArgVal (PStr ''s1'')]])
   \<and> zip_processor
     (sample_host [1] [''a/b.ts''] []
        (Inr (PDict [(''filename'', PStr ''proj.zip''), (''user_oid'', PInt 0)])))
     sample_blob ()
   = (Inr (), (),
      [Log ERROR ''Missing filename or user_oid in _job.json for %s'' [ArgVal (PStr ''s1'')]])"
proof (intro conjI)
  show "zip_processor
     (sample_host [1] [''a/b.ts''] []
        (Inr (PDict [(''filename'', PStr []), (''user_oid'', PStr ''u1'')])))
     sample_blob ()
   = (Inr (), (),
      [Log ERROR ''Missing filename or user_oid in _job.json for %s'' [ArgVal (PStr ''s1'')]])"
    using falsy_fields_rejected [where blob = sample_blob and body = "[123, 125]"
        and host = "sample_host [1] [''a/b.ts''] []
           (Inr (PDict [(''filename'', PStr []), (''user_oid'', PStr ''u1'')]))"
        and kvs = "[(''filename'', PStr []), (''user_oid'', PStr ''u1'')]" and w = "()"]
    by simp
next
  show "zip_processor
     (sample_host [1] [''a/b.ts''] []
        (Inr (PDict [(''filename'', PStr ''proj.zip''), (''user_oid'', PInt 0)])))
     sample_blob ()
   = (Inr (), (),
      [Log ERROR ''Missing filename or user_oid in _job.json for %s'' [ArgVal (PStr ''s1'')]])"
    using falsy_fields_rejected [where blob = sample_blob and body = "[123, 125]"
        and host = "sample_host [1] [''a/b.ts''] []
           (Inr (PDict [(''filename'', PStr ''proj.zip''), (''user_oid'', PInt 0)]))"
        and kvs = "[(''filename'', PStr ''proj.zip''), (''user_oid'', PInt 0)]" and w = "()"]
    by simp
qed

subsection \<open>Error messages\<close>

lemma dom_error_dict: "dom (error_dict e) = {''error''}"
  by (cases e) (auto simp: Let_def split: if_splits)

lemma shorten_advice: "sublist ''Please shorten your message'' ERROR_MESSAGE_LENGTH"
proof -
  have "ERROR_MESSAGE_LENGTH
        = ''Your message exceeded the context length limit for this OpenAI model. ''
          @ ''Please shorten your message''
          @ '' or change your settings to retrieve fewer search results.''"
    by (simp add: ERROR_MESSAGE_LENGTH_def)
  then show ?thesis unfolding sublist_def by blast
qed

lemma generic_names_type: "sublist (class_name c) (ERROR_MESSAGE (class_repr c))"
proof -
  let ?pre = "if class_module c = ''builtins'' then [] else class_module c @ ''.''"
  have "ERROR_MESSAGE (class_repr c)
        = (''The app encountered an error processing your request.'' @ newline
           @ ''If you are an administrator of the app, check the application logs for a full traceback.''
           @ newline @ ''Error type: '' @ ''<class '' @ [CHR 0x27] @ ?pre)
          @ class_name c
          @ ([CHR 0x27] @ ''>'' @ newline)"
    by (simp add: ERROR_MESSAGE_def class_repr_def quoted_def)
  then show ?thesis unfolding sublist_def by blast
qed

text \<open>
  Claim C8. \<^verbatim>\<open>error_dict\<close> always returns a dict whose only key is \<^verbatim>\<open>"error"\<close>. An
  \<^verbatim>\<open>APIError\<close> with code \<^verbatim>\<open>content_filter\<close> gives the content-filter message; one with
  code \<^verbatim>\<open>context_length_exceeded\<close> gives the context-length message, which advises
  shortening the message. An \<^verbatim>\<open>HttpResponseError\<close> gives the Azure-service message,
  whose text is prefixed with \<^verbatim>\<open>[HTTP status]\<close> when the response carries a status code
  (an HTTP status code, 100 to 599) and is not prefixed when there is no response or no
  status code. Every other exception, an \<^verbatim>\<open>APIError\<close> with another code included,
  gives the generic message, which names the class of the exception.
\<close>

theorem error_dict_messages:
  "dom (error_dict e) = {''error''}
   \<and> error_dict (APIError c (Some ''content_filter'')) = [''error'' \<mapsto> ERROR_MESSAGE_FILTER]
   \<and> error_dict (APIError c (Some ''context_length_exceeded''))
       = [''error'' \<mapsto> ERROR_MESSAGE_LENGTH]
   \<and> sublist ''Please shorten your message'' ERROR_MESSAGE_LENGTH
   \<and> (http_status n \<longrightarrow>
        error_dict (HttpResponseError c message str_error (Some (Some n)))
        = [''error'' \<mapsto> ERROR_MESSAGE_AZURE
                          (''[HTTP '' @ str_int n @ ''] '' @ error_text message str_error)
                          (class_name c)])
   \<and> error_dict (HttpResponseError c message str_error (Some None))
       = [''error'' \<mapsto> ERROR_MESSAGE_AZURE (error_text message str_error) (class_name c)]
   \<and> error_dict (HttpResponseError c message str_error None)
       = [''error'' \<mapsto> ERROR_MESSAGE_AZURE (error_text message str_error) (class_name c)]
   \<and> (code \<noteq> Some ''content_filter'' \<and> code \<noteq> Some ''context_length_exceeded'' \<longrightarrow>
        error_dict (APIError c code) = [''error'' \<mapsto> ERROR_MESSAGE (class_repr c)])
   \<and> error_dict (OtherError c) = [''error'' \<mapsto> ERROR_MESSAGE (class_repr c)]
   \<and> sublist (class_name c) (ERROR_MESSAGE (class_repr c))"
  using dom_error_dict [of e] shorten_advice generic_names_type [of c]
  by (auto simp: Let_def http_status_def)

lemma str_int_404: "str_int 404 = ''404''"
  by (simp add: str_int_def str_nat.simps)

text \<open>A 404 from the search service, and an \<^verbatim>\<open>APIError\<close> without a code.\<close>

theorem error_dict_messages_witness:
  "error_dict (HttpResponseError
      \<lparr>class_module = ''azure.core.exceptions'', class_name = ''ResourceNotFoundError''\<rparr>
      (Some ''Index not found'') ''(NotFound) Index not found'' (Some (Some 404)))
   = [''error'' \<mapsto> ''Azure service error: [HTTP 404] Index not found'' @ newline
        @ ''If indexing is in progress, try again in a minute. Error type: ResourceNotFoundError'']
   \<and> error_dict (APIError \<lparr>class_module = ''openai'', class_name = ''APIError''\<rparr> None)
   = [''error'' \<mapsto> ERROR_MESSAGE (''<class '' @ quoted ''openai.APIError'' @ ''>'')]"
proof
  show "error_dict (HttpResponseError
      \<lparr>class_module = ''azure.core.exceptions'', class_name = ''ResourceNotFoundError''\<rparr>
      (Some ''Index not found'') ''(NotFound) Index not found'' (Some (Some 404)))
   = [''error'' \<mapsto> ''Azure service error: [HTTP 404] Index not found'' @ newline
        @ ''If indexing is in progress, try again in a minute. Error type: ResourceNotFoundError'']"
    using error_dict_messages [where n = 404
        and c = "\<lparr>class_module = ''azure.core.exceptions'', class_name = ''ResourceNotFoundError''\<rparr>"
        and message = "Some ''Index not found''" and str_error = "''(NotFound) Index not found''"]
    by (simp add: http_status_def str_int_404 error_text_def ERROR_MESSAGE_AZURE_def)
  show "error_dict (APIError \<lparr>class_module = ''openai'', class_name = ''APIError''\<rparr> None)
   = [''error'' \<mapsto> ERROR_MESSAGE (''<class '' @ quoted ''openai.APIError'' @ ''>'')]"
    using error_dict_messages [where code = None
        and c = "\<lparr>class_module = ''openai'', class_name = ''APIError''\<rparr>"]
    by (simp add: class_repr_def)
qed

text \<open>
  Outside the claim's range: the test \<^verbatim>\<open>if status:\<close> is one of truth value, so a status
  code of 0, which no HTTP response carries, gives no prefix.
\<close>

lemma status_zero_not_prefixed:
  "error_dict (HttpResponseError c message str_error (Some (Some 0)))
   = [''error'' \<mapsto> ERROR_MESSAGE_AZURE (error_text message str_error) (class_name c)]"
  by (simp add: Let_def)

subsection \<open>The describer cache\<close>

lemma get_media_describer_cached:
  "media_describer fp = Some d \<Longrightarrow> get_media_describer fp evs = (Inr (Some d), fp, evs)"
  by (simp add: get_media_describer_def)

lemma mark_ready_keeps_cache:
  "media_describer (mark_content_understanding_ready fp) = media_describer fp"
  by (simp add: mark_content_understanding_ready_def)

text \<open>
  Claim C9. On a correctly configured CONTENTUNDERSTANDING processor that has not been
  used, two \<^verbatim>\<open>describe\<close> calls in sequence both succeed through the same describer
  instance, and the create-analyzer step has run exactly once after the first call and
  still exactly once after the second. Once that instance is cached, every acquisition
  returns it, in whatever state of the outside, changing nothing: no construction and no
  create-analyzer step.
\<close>

theorem describer_initialized_once:
  assumes "correctly_configured fp"
    and "media_describer fp = None"
  shows "\<exists>d fp1 evs1 fp2 evs2.
           describe describe_image img1 fp evs = (Inr (describe_image d img1), fp1, evs1)
         \<and> describe describe_image img2 fp1 evs1 = (Inr (describe_image d img2), fp2, evs2)
         \<and> create_analyzer_count evs1 = create_analyzer_count evs + 1
         \<and> create_analyzer_count evs2 = create_analyzer_count evs + 1
         \<and> media_describer fp1 = Some d \<and> media_describer fp2 = Some d
         \<and> (\<forall>fp' evs'. media_describer fp' = Some d \<longrightarrow>
               get_media_describer fp' evs' = (Inr (Some d), fp', evs'))"
proof -
  let ?d = "\<lparr>describer_kind = ContentUnderstandingDescriber, describer_id = fresh_id evs\<rparr>"
  let ?fp1 = "fp\<lparr>media_describer := Some ?d\<rparr>"
  let ?evs1 = "evs @ [Construct ?d, CreateAnalyzer (describer_id ?d), DescribeImage (describer_id ?d) img1]"
  let ?evs2 = "?evs1 @ [DescribeImage (describer_id ?d) img2]"
  have g: "get_media_describer fp evs
           = (Inr (Some ?d), ?fp1, evs @ [Construct ?d, CreateAnalyzer (describer_id ?d)])"
    using assms by (auto simp: get_media_describer_def correctly_configured_def Let_def)
  have d1: "describe describe_image img1 fp evs = (Inr (describe_image ?d img1), ?fp1, ?evs1)"
    using g by (simp add: describe_def)
  have d2: "describe describe_image img2 ?fp1 ?evs1 = (Inr (describe_image ?d img2), ?fp1, ?evs2)"
    by (simp add: describe_def get_media_describer_def)
  have c1: "create_analyzer_count ?evs1 = create_analyzer_count evs + 1"
    by (simp add: create_analyzer_count_def)
  have c2: "create_analyzer_count ?evs2 = create_analyzer_count evs + 1"
    by (simp add: create_analyzer_count_def)
  have m: "media_describer ?fp1 = Some ?d" by simp
  from d1 d2 c1 c2 m get_media_describer_cached show ?thesis by blast
qed

text \<open>The test's processor: two calls, one create-analyzer step, the description returned.\<close>

theorem describer_initialized_once_witness:
  "create_analyzer_count
     (snd (snd (describe (\<lambda>d img. Some ''A diagram'') [2]
        (fst (snd (describe (\<lambda>d img. Some ''A diagram'') [1] sample_processor [])))
        (snd (snd (describe (\<lambda>d img. Some ''A diagram'') [1] sample_processor [])))))) = 1
   \<and> fst (describe (\<lambda>d img. Some ''A diagram'') [1] sample_processor [])
       = Inr (Some ''A diagram'')"
proof -
  have cc: "correctly_configured sample_processor"
    by (simp add: correctly_configured_def sample_processor_def)
  have un: "media_describer sample_processor = None"
    by (simp add: sample_processor_def)
  from describer_initialized_once [OF cc un, of "\<lambda>d img. Some ''A diagram''" "[1]" "[]" "[2]"]
  obtain d fp1 evs1 fp2 evs2 where
    "describe (\<lambda>d img. Some ''A diagram'') [1] sample_processor []
       = (Inr (Some ''A diagram''), fp1, evs1)"
    "describe (\<lambda>d img. Some ''A diagram'') [2] fp1 evs1 = (Inr (Some ''A diagram''), fp2, evs2)"
    "create_analyzer_count evs2 = create_analyzer_count [] + 1"
    by blast
  then show ?thesis by (simp add: create_analyzer_count_def)
qed

end
